theory Spec2Isabelle
  imports Complex_Main "HOL-Library.Word"
begin

text \<open>
  The repository holds three Node.js scripts that talk to the GitHub REST API:
  \<^item> \<open>push-workflow.js\<close>: \<open>pushWorkflow\<close> creates or updates the workflow file through the
    Octokit client;
  \<^item> \<open>trigger-codeql.js\<close>: \<open>triggerWorkflow\<close> dispatches a run through \<open>https.request\<close>;
  \<^item> \<open>workflow-manager.js\<close>: \<open>makeRequest\<close> and the operations \<open>disableWorkflow\<close>,
    \<open>enableWorkflow\<close>, \<open>getWorkflowStatus\<close> and \<open>listWorkflows\<close> built on it.

  Each function is a function of its arguments and of an environment that stands for what
  it reaches outside: the network, the Octokit client, the local file, \<open>JSON.parse\<close>. A
  promise that resolves is \<open>Inr\<close>, a promise that rejects or a statement that throws is
  \<open>Inl\<close>. Console output and the parsing of the command line are left out.
\<close>

section \<open>JavaScript values used by the three scripts\<close>

text \<open>
  A JavaScript string is a sequence of UTF-16 code units; \<open>s.length\<close> counts code units.
  Source literals are ASCII and are written with \<open>js\<close>.
\<close>

type_synonym jsstring = "16 word list"

type_synonym bytes = "8 word list"

definition js :: "string \<Rightarrow> jsstring" where
  "js s = map (\<lambda>c. of_char c) s"

text \<open>
  The values \<open>JSON.parse\<close> and the Octokit client hand to the scripts, plus \<open>undefined\<close>.
  An object is its own properties as an association list (first binding wins).
\<close>

datatype jsval =
    JUndefined
  | JNull
  | JBool bool
  | JNum rat
  | JStr jsstring
  | JArr "jsval list"
  | JObj "(jsstring \<times> jsval) list"

text \<open>
  Thrown values. \<open>Error m\<close> is \<open>new Error(m)\<close>; \<open>RequestError s m\<close> is the error the
  Octokit client throws for a response with HTTP status \<open>s\<close> (its \<open>status\<close> field is \<open>s\<close>);
  \<open>NetworkError m\<close> is what the \<open>https\<close> request emits on its \<open>error\<close> event;
  \<open>TypeErrorRead v k\<close> is the TypeError of reading property \<open>k\<close> of \<open>v\<close> when \<open>v\<close> is
  \<open>undefined\<close> or \<open>null\<close>; \<open>TypeErrorNotFunction k\<close> is the TypeError of calling a property
  \<open>k\<close> that is not a function; \<open>TypeErrorToPrimitive\<close> is the TypeError of converting to a
  string an object that has no callable \<open>toString\<close> or \<open>valueOf\<close> giving a primitive.
\<close>

datatype js_error =
    Error jsstring
  | RequestError nat jsstring
  | NetworkError jsstring
  | TypeErrorRead jsval string
  | TypeErrorNotFunction string
  | TypeErrorToPrimitive

text \<open>\<open>error.status\<close>: only the Octokit error has the field.\<close>

fun status :: "js_error \<Rightarrow> nat option" where
  "status (RequestError s m) = Some s"
| "status e = None"

text \<open>Truthiness, as tested by \<open>if (x)\<close> and \<open>x ? a : b\<close>.\<close>

fun truthy :: "jsval \<Rightarrow> bool" where
  "truthy JUndefined = False"
| "truthy JNull = False"
| "truthy (JBool b) = b"
| "truthy (JNum n) = (n \<noteq> 0)"
| "truthy (JStr s) = (s \<noteq> [])"
| "truthy (JArr xs) = True"
| "truthy (JObj kvs) = True"

text \<open>
  Property read \<open>v.k\<close> for the property names the scripts read (\<open>sha\<close>, \<open>commit\<close>,
  \<open>html_url\<close>, \<open>workflows\<close>, \<open>length\<close>, \<open>state\<close>, \<open>name\<close>, \<open>path\<close>, \<open>id\<close>,
  \<open>created_at\<close>, \<open>updated_at\<close>): none of them is inherited from a prototype except
  \<open>length\<close> of arrays and strings. Reading a property of \<open>undefined\<close> or \<open>null\<close> throws.
\<close>

fun getProp :: "jsval \<Rightarrow> string \<Rightarrow> js_error + jsval" where
  "getProp JUndefined k = Inl (TypeErrorRead JUndefined k)"
| "getProp JNull k = Inl (TypeErrorRead JNull k)"
| "getProp (JObj kvs) k = Inr (case map_of kvs (js k) of Some v \<Rightarrow> v | None \<Rightarrow> JUndefined)"
| "getProp (JArr xs) k = Inr (if k = ''length'' then JNum (of_nat (length xs)) else JUndefined)"
| "getProp (JStr s) k = Inr (if k = ''length'' then JNum (of_nat (length s)) else JUndefined)"
| "getProp (JBool b) k = Inr JUndefined"
| "getProp (JNum n) k = Inr JUndefined"

text \<open>
  The conversion to a string that a template literal applies to a substituted value
  (ToString of ECMA-262), for values that come from JSON. The string itself only goes to the
  console, so the model keeps whether the conversion returns or throws. A primitive always
  converts. An object converts through \<open>Object.prototype.toString\<close> unless it has an own
  \<open>toString\<close> property: that property, a JSON value, is not callable, and neither an own
  \<open>valueOf\<close> (not callable) nor the inherited one (which returns the object) gives a
  primitive, so the conversion throws. An array converts through \<open>join\<close>, which converts
  each element in order (\<open>null\<close> and \<open>undefined\<close> become the empty string).
\<close>

fun ToString :: "jsval \<Rightarrow> js_error + unit"
  and ToStringElems :: "jsval list \<Rightarrow> js_error + unit" where
  "ToString (JObj kvs) =
     (case map_of kvs (js ''toString'') of
        None \<Rightarrow> Inr ()
      | Some m \<Rightarrow> Inl TypeErrorToPrimitive)"
| "ToString (JArr xs) = ToStringElems xs"
| "ToString v = Inr ()"
| "ToStringElems [] = Inr ()"
| "ToStringElems (x # xs) =
     (case ToString x of Inl e \<Rightarrow> Inl e | Inr u \<Rightarrow> ToStringElems xs)"

text \<open>Number-to-string conversion of a non-negative integer, as in a template literal.\<close>

fun numToString :: "nat \<Rightarrow> jsstring" where
  "numToString n =
     (if n < 10 then [of_nat (48 + n)]
      else numToString (n div 10) @ [of_nat (48 + n mod 10)])"

declare numToString.simps [simp del]

subsection \<open>String encodings of the runtime\<close>

definition isHighSurrogate :: "16 word \<Rightarrow> bool" where
  "isHighSurrogate c = (0xD800 \<le> c \<and> c \<le> 0xDBFF)"

definition isLowSurrogate :: "16 word \<Rightarrow> bool" where
  "isLowSurrogate c = (0xDC00 \<le> c \<and> c \<le> 0xDFFF)"

text \<open>The UTF-8 bytes of a code point.\<close>

definition utf8_codepoint :: "nat \<Rightarrow> bytes" where
  "utf8_codepoint n =
     (if n < 0x80 then [of_nat n]
      else if n < 0x800 then [of_nat (0xC0 + n div 64), of_nat (0x80 + n mod 64)]
      else if n < 0x10000 then
        [of_nat (0xE0 + n div 4096), of_nat (0x80 + (n div 64) mod 64), of_nat (0x80 + n mod 64)]
      else
        [of_nat (0xF0 + n div 262144), of_nat (0x80 + (n div 4096) mod 64),
         of_nat (0x80 + (n div 64) mod 64), of_nat (0x80 + n mod 64)])"

text \<open>
  The bytes Node writes for a string (\<open>req.write(s)\<close>, \<open>Buffer.from(s)\<close>, default encoding
  UTF-8): a surrogate pair is one 4-byte sequence, a lone surrogate is replaced by U+FFFD.
\<close>

fun utf8_encode :: "jsstring \<Rightarrow> bytes" where
  "utf8_encode [] = []"
| "utf8_encode (c # cs) =
     (if isHighSurrogate c then
        (case cs of
           [] \<Rightarrow> utf8_codepoint 0xFFFD
         | d # ds \<Rightarrow>
             if isLowSurrogate d
             then utf8_codepoint (0x10000 + (unat c - 0xD800) * 1024 + (unat d - 0xDC00))
                  @ utf8_encode ds
             else utf8_codepoint 0xFFFD @ utf8_encode cs)
      else if isLowSurrogate c then utf8_codepoint 0xFFFD @ utf8_encode cs
      else utf8_codepoint (unat c) @ utf8_encode cs)"

text \<open>\<open>Buffer.byteLength(s)\<close>: the number of bytes of the UTF-8 encoding.\<close>

definition byteLength :: "jsstring \<Rightarrow> nat" where
  "byteLength s = length (utf8_encode s)"

text \<open>\<open>JSON.stringify\<close> of a string (QuoteJSONString of ECMA-262).\<close>

definition hexDigit :: "nat \<Rightarrow> 16 word" where
  "hexDigit d = (if d < 10 then of_nat (48 + d) else of_nat (87 + d))"

definition unicodeEscape :: "16 word \<Rightarrow> jsstring" where
  "unicodeEscape c =
     [0x5C, 0x75, hexDigit (unat c div 4096), hexDigit ((unat c div 256) mod 16),
      hexDigit ((unat c div 16) mod 16), hexDigit (unat c mod 16)]"

fun quoteChars :: "jsstring \<Rightarrow> jsstring" where
  "quoteChars [] = []"
| "quoteChars (c # cs) =
     (if c = 0x08 then [0x5C, 0x62] @ quoteChars cs
      else if c = 0x09 then [0x5C, 0x74] @ quoteChars cs
      else if c = 0x0A then [0x5C, 0x6E] @ quoteChars cs
      else if c = 0x0C then [0x5C, 0x66] @ quoteChars cs
      else if c = 0x0D then [0x5C, 0x72] @ quoteChars cs
      else if c = 0x22 then [0x5C, 0x22] @ quoteChars cs
      else if c = 0x5C then [0x5C, 0x5C] @ quoteChars cs
      else if c < 0x20 then unicodeEscape c @ quoteChars cs
      else if isHighSurrogate c then
        (case cs of
           [] \<Rightarrow> unicodeEscape c
         | d # ds \<Rightarrow>
             if isLowSurrogate d then c # d # quoteChars ds
             else unicodeEscape c @ quoteChars cs)
      else if isLowSurrogate c then unicodeEscape c @ quoteChars cs
      else c # quoteChars cs)"

definition quoteJSONString :: "jsstring \<Rightarrow> jsstring" where
  "quoteJSONString s = [0x22] @ quoteChars s @ [0x22]"

section \<open>The HTTPS layer\<close>

text \<open>
  What \<open>https.request\<close> is given: the options object and the bytes written to the request.
  A header value is a string or a number.
\<close>

datatype header_value = HStr jsstring | HNum nat

record request =
  hostname :: jsstring
  port :: nat
  path :: jsstring
  "method" :: jsstring
  headers :: "(string \<times> header_value) list"

text \<open>
  What comes back: a response with its status code and its \<open>data\<close> chunks (each already
  converted to a string, as \<open>responseData += chunk\<close> does) followed by \<open>end\<close>, or an
  \<open>error\<close> event.
\<close>

datatype http_outcome =
    Response nat "jsstring list"
  | RequestFailed js_error

text \<open>\<open>let responseData = ''; res.on('data', chunk => responseData += chunk)\<close>\<close>

definition collect :: "jsstring list \<Rightarrow> jsstring" where
  "collect chunks = foldl (\<lambda>responseData chunk. responseData @ chunk) [] chunks"

definition OWNER :: string where
  "OWNER = ''akhilesh1207''"

definition REPO :: string where
  "REPO = ''test-codeql''"

section \<open>trigger-codeql.js\<close>

definition WORKFLOW_FILE :: string where
  "WORKFLOW_FILE = ''codeql-manual.yml''"

text \<open>
  An option value is a string or a boolean; the options object is a dictionary, a key that
  is absent (or \<open>undefined\<close>) is \<open>None\<close>.
\<close>

datatype optval = OStr jsstring | OBool bool

type_synonym options = "string \<rightharpoonup> optval"

fun toString :: "optval \<Rightarrow> jsstring" where
  "toString (OStr s) = s"
| "toString (OBool b) = js (if b then ''true'' else ''false'')"

record inputs_obj =
  languages :: optval
  queries :: optval
  upload_sarif :: optval

record payload =
  ref :: optval
  inputs :: inputs_obj

text \<open>Destructuring with defaults: the default is taken exactly when the key is absent.\<close>

definition orDefault :: "optval option \<Rightarrow> optval \<Rightarrow> optval" where
  "orDefault v d = (case v of None \<Rightarrow> d | Some x \<Rightarrow> x)"

text \<open>The object literal passed to \<open>JSON.stringify\<close> (lines 143 to 157 of the script).\<close>

definition payloadOf :: "options \<Rightarrow> payload" where
  "payloadOf opts =
     (let languages = orDefault (opts ''languages'') (OStr (js ''javascript-typescript,actions''));
          queries = orDefault (opts ''queries'') (OStr (js ''security-extended''));
          uploadSarif = orDefault (opts ''uploadSarif'') (OBool True);
          ref = orDefault (opts ''ref'') (OStr (js ''main''))
      in \<lparr>ref = ref,
          inputs = \<lparr>languages = languages, queries = queries,
                    upload_sarif = OStr (toString uploadSarif)\<rparr>\<rparr>)"

text \<open>\<open>JSON.stringify\<close> of a string or boolean, and of the object literal above.\<close>

fun stringifyValue :: "optval \<Rightarrow> jsstring" where
  "stringifyValue (OStr s) = quoteJSONString s"
| "stringifyValue (OBool b) = js (if b then ''true'' else ''false'')"

definition stringify :: "payload \<Rightarrow> jsstring" where
  \<open>stringify p =
     js ''{"ref":'' @ stringifyValue (ref p) @
     js '',"inputs":{"languages":'' @ stringifyValue (languages (inputs p)) @
     js '',"queries":'' @ stringifyValue (queries (inputs p)) @
     js '',"upload_sarif":'' @ stringifyValue (upload_sarif (inputs p)) @
     js ''}}''\<close>

definition requestOptions :: "jsstring \<Rightarrow> jsstring \<Rightarrow> request" where
  "requestOptions GITHUB_TOKEN data =
     \<lparr>hostname = js ''api.github.com'',
      port = 443,
      path = js (''/repos/'' @ OWNER @ ''/'' @ REPO @ ''/actions/workflows/'' @ WORKFLOW_FILE
                 @ ''/dispatches''),
      method = js ''POST'',
      headers =
        [(''Authorization'', HStr (js ''token '' @ GITHUB_TOKEN)),
         (''Accept'', HStr (js ''application/vnd.github.v3+json'')),
         (''Content-Type'', HStr (js ''application/json'')),
         (''Content-Length'', HNum (length data)),
         (''User-Agent'', HStr (js ''CodeQL-Trigger/1.0.0''))]\<rparr>"

record trigger_result =
  success :: bool
  statusCode :: nat

text \<open>The \<open>end\<close> handler of the response (lines 188 to 198).\<close>

definition triggerOnEnd :: "nat \<Rightarrow> jsstring \<Rightarrow> js_error + trigger_result" where
  "triggerOnEnd resStatusCode responseData =
     (if resStatusCode = 204 then Inr \<lparr>success = True, statusCode = resStatusCode\<rparr>
      else Inl (Error (js ''HTTP '' @ numToString resStatusCode @ js '': '' @ responseData)))"

text \<open>
  The environment of the script: the token read from the process environment (each script
  exits when it is loaded without one) and the network, which answers a request and the
  bytes written to it.
\<close>

record net_env =
  GITHUB_TOKEN :: jsstring
  https_request :: "request \<Rightarrow> bytes \<Rightarrow> http_outcome"

text \<open>
  \<open>triggerWorkflow(options = {})\<close>; \<open>None\<close> is a call without argument. The promise
  resolves (\<open>Inr\<close>) or rejects (\<open>Inl\<close>).
\<close>

definition triggerWorkflow :: "net_env \<Rightarrow> options option \<Rightarrow> js_error + trigger_result" where
  "triggerWorkflow env options =
     (let opts = (case options of None \<Rightarrow> Map.empty | Some ob \<Rightarrow> ob);
          data = stringify (payloadOf opts)
      in case https_request env (requestOptions (GITHUB_TOKEN env) data) (utf8_encode data) of
           Response resStatusCode chunks \<Rightarrow> triggerOnEnd resStatusCode (collect chunks)
         | RequestFailed error \<Rightarrow> Inl error)"

section \<open>workflow-manager.js\<close>

text \<open>
  \<open>JSON.parse\<close> belongs to the runtime and is a parameter: \<open>None\<close> is a thrown
  SyntaxError, \<open>Some v\<close> the parsed value.
\<close>

record mgr_env = net_env +
  JSON_parse :: "jsstring \<Rightarrow> jsval option"

record response =
  statusCode :: nat
  data :: jsval

text \<open>
  The options object of \<open>makeRequest\<close> (lines 28 to 43); \<open>data\<close> is \<open>null\<close> or a
  string, and \<open>if (data)\<close> holds for a non-empty string.
\<close>

definition makeRequestOptions ::
  "jsstring \<Rightarrow> jsstring \<Rightarrow> jsstring \<Rightarrow> jsstring option \<Rightarrow> request" where
  "makeRequestOptions token path' method' data' =
     (let options =
        \<lparr>hostname = js ''api.github.com'',
         port = 443,
         path = path',
         method = method',
         headers =
           [(''Authorization'', HStr (js ''token '' @ token)),
            (''Accept'', HStr (js ''application/vnd.github.v3+json'')),
            (''User-Agent'', HStr (js ''Workflow-Manager/1.0.0''))]\<rparr>
      in case data' of
           None \<Rightarrow> options
         | Some d \<Rightarrow>
             if d \<noteq> [] then
               options\<lparr>headers := headers options @
                 [(''Content-Type'', HStr (js ''application/json'')),
                  (''Content-Length'', HNum (byteLength d))]\<rparr>
             else options)"

text \<open>What \<open>if (data) req.write(data)\<close> puts on the wire before \<open>req.end()\<close>.\<close>

definition makeRequestBody :: "jsstring option \<Rightarrow> bytes" where
  "makeRequestBody data' =
     (case data' of None \<Rightarrow> [] | Some d \<Rightarrow> if d \<noteq> [] then utf8_encode d else [])"

text \<open>The \<open>end\<close> handler of the response (lines 52 to 63).\<close>

definition makeRequestOnEnd ::
  "(jsstring \<Rightarrow> jsval option) \<Rightarrow> nat \<Rightarrow> jsstring \<Rightarrow> js_error + response" where
  "makeRequestOnEnd parse resStatusCode responseData =
     (if 200 \<le> resStatusCode \<and> resStatusCode < 300 then
        (if responseData \<noteq> [] then
           (case parse responseData of
              Some parsed \<Rightarrow> Inr \<lparr>statusCode = resStatusCode, data = parsed\<rparr>
            | None \<Rightarrow> Inr \<lparr>statusCode = resStatusCode, data = JStr responseData\<rparr>)
         else Inr \<lparr>statusCode = resStatusCode, data = JObj []\<rparr>)
      else Inl (Error (js ''HTTP '' @ numToString resStatusCode @ js '': '' @ responseData)))"

text \<open>\<open>makeRequest(path, method = 'GET', data = null)\<close>; \<open>None\<close> is an omitted argument.\<close>

definition makeRequest ::
  "'a mgr_env_scheme \<Rightarrow> jsstring \<Rightarrow> jsstring option \<Rightarrow> jsstring option \<Rightarrow> js_error + response" where
  "makeRequest env path' method' data' =
     (let method = (case method' of None \<Rightarrow> js ''GET'' | Some m \<Rightarrow> m)
      in case https_request env (makeRequestOptions (GITHUB_TOKEN env) path' method data')
                (makeRequestBody data') of
           Response resStatusCode chunks \<Rightarrow>
             makeRequestOnEnd (JSON_parse env) resStatusCode (collect chunks)
         | RequestFailed error \<Rightarrow> Inl error)"

text \<open>
  Sequencing of statements that can throw. Console output is not part of the model; a
  property read inside a logged template literal and the conversion of its value to a
  string are, since they can throw.
\<close>

definition andThen :: "js_error + 'a \<Rightarrow> ('a \<Rightarrow> js_error + 'b) \<Rightarrow> js_error + 'b" where
  "andThen r f = (case r of Inl e \<Rightarrow> Inl e | Inr v \<Rightarrow> f v)"

text \<open>\<open>${v.k}\<close> in a template literal: the property is read, then converted to a string.\<close>

definition interpolate :: "jsval \<Rightarrow> string \<Rightarrow> js_error + unit" where
  "interpolate v k = andThen (getProp v k) ToString"

definition workflowsPath :: jsstring where
  "workflowsPath = js (''/repos/'' @ OWNER @ ''/'' @ REPO @ ''/actions/workflows'')"

text \<open>Each operation catches, logs and rethrows the same error.\<close>

definition disableWorkflow :: "'a mgr_env_scheme \<Rightarrow> jsstring \<Rightarrow> js_error + response" where
  "disableWorkflow env workflowFile =
     makeRequest env (workflowsPath @ js ''/'' @ workflowFile @ js ''/disable'')
       (Some (js ''PUT'')) None"

definition enableWorkflow :: "'a mgr_env_scheme \<Rightarrow> jsstring \<Rightarrow> js_error + response" where
  "enableWorkflow env workflowFile =
     makeRequest env (workflowsPath @ js ''/'' @ workflowFile @ js ''/enable'')
       (Some (js ''PUT'')) None"

definition getWorkflowStatus :: "'a mgr_env_scheme \<Rightarrow> jsstring \<Rightarrow> js_error + response" where
  "getWorkflowStatus env workflowFile =
     andThen (makeRequest env (workflowsPath @ js ''/'' @ workflowFile) None None) (\<lambda>response.
       let workflow = data response in
       andThen (interpolate workflow ''name'') (\<lambda>_.
       andThen (interpolate workflow ''state'') (\<lambda>_.
       andThen (interpolate workflow ''path'') (\<lambda>_.
       andThen (interpolate workflow ''id'') (\<lambda>_.
       andThen (interpolate workflow ''created_at'') (\<lambda>_.
       andThen (interpolate workflow ''updated_at'') (\<lambda>_.
       Inr response)))))))"

text \<open>
  The callback of \<open>workflows.forEach\<close> (lines 131 to 138): \<open>workflow.state\<close> is read and
  compared on line 132, then \<open>name\<close>, \<open>path\<close>, \<open>state\<close> and \<open>id\<close> are logged.
\<close>

definition listCallback :: "jsval \<Rightarrow> js_error + unit" where
  "listCallback workflow =
     andThen (getProp workflow ''state'') (\<lambda>_.
     andThen (interpolate workflow ''name'') (\<lambda>_.
     andThen (interpolate workflow ''path'') (\<lambda>_.
     andThen (interpolate workflow ''state'') (\<lambda>_.
     andThen (interpolate workflow ''id'') (\<lambda>_.
     Inr ())))))"

fun forEachElem :: "jsval list \<Rightarrow> (jsval \<Rightarrow> js_error + unit) \<Rightarrow> js_error + unit" where
  "forEachElem [] f = Inr ()"
| "forEachElem (x # xs) f = (case f x of Inl e \<Rightarrow> Inl e | Inr u \<Rightarrow> forEachElem xs f)"

text \<open>
  \<open>v.forEach(f)\<close>: only an array has the method; for a value parsed from JSON any other
  \<open>forEach\<close> property is not callable.
\<close>

fun forEach :: "jsval \<Rightarrow> (jsval \<Rightarrow> js_error + unit) \<Rightarrow> js_error + unit" where
  "forEach (JArr xs) f = forEachElem xs f"
| "forEach JUndefined f = Inl (TypeErrorRead JUndefined ''forEach'')"
| "forEach JNull f = Inl (TypeErrorRead JNull ''forEach'')"
| "forEach v f = Inl (TypeErrorNotFunction ''forEach'')"

text \<open>Lines 128 to 140 of \<open>listWorkflows\<close>: what it does with the response it awaited.\<close>

definition listResponse :: "response \<Rightarrow> js_error + response" where
  "listResponse response =
     andThen (getProp (data response) ''workflows'') (\<lambda>workflows.
     andThen (interpolate workflows ''length'') (\<lambda>_.
     andThen (forEach workflows listCallback) (\<lambda>_.
     Inr response)))"

definition listWorkflows :: "'a mgr_env_scheme \<Rightarrow> js_error + response" where
  "listWorkflows env = andThen (makeRequest env workflowsPath None None) listResponse"

section \<open>push-workflow.js\<close>

definition BRANCH :: string where
  "BRANCH = ''main''"

definition WORKFLOW_PATH :: string where
  "WORKFLOW_PATH = ''.github/workflows/codeql-manual.yml''"

text \<open>\<open>Buffer.from(s).toString('base64')\<close>: base64 of the UTF-8 bytes.\<close>

definition base64Char :: "nat \<Rightarrow> 16 word" where
  "base64Char n =
     (if n < 26 then of_nat (65 + n)
      else if n < 52 then of_nat (71 + n)
      else if n < 62 then of_nat (n - 4)
      else if n = 62 then 0x2B
      else 0x2F)"

fun base64 :: "bytes \<Rightarrow> jsstring" where
  "base64 [] = []"
| "base64 [a] =
     [base64Char (unat a div 4), base64Char ((unat a mod 4) * 16), 0x3D, 0x3D]"
| "base64 [a, b] =
     [base64Char (unat a div 4), base64Char ((unat a mod 4) * 16 + unat b div 16),
      base64Char ((unat b mod 16) * 4), 0x3D]"
| "base64 (a # b # c # rest) =
     [base64Char (unat a div 4), base64Char ((unat a mod 4) * 16 + unat b div 16),
      base64Char ((unat b mod 16) * 4 + unat c div 64), base64Char (unat c mod 64)]
     @ base64 rest"

text \<open>The parameter objects of the two Octokit calls; \<open>sha\<close> is a property that may be absent.\<close>

record getContent_params =
  owner :: jsstring
  repo :: jsstring
  path :: jsstring
  ref :: jsstring

record requestData =
  owner :: jsstring
  repo :: jsstring
  path :: jsstring
  message :: jsstring
  content :: jsstring
  branch :: jsstring
  sha :: "jsval option"

datatype api_call =
    GetContent getContent_params
  | CreateOrUpdateFileContents requestData

text \<open>
  The environment of the script: the resolved local path, the local file (\<open>None\<close> when
  \<open>fs.existsSync\<close> is false, otherwise what \<open>fs.readFileSync(_, 'utf8')\<close> returns), and
  the Octokit client: each call resolves with the \<open>data\<close> of its response or throws.
\<close>

record push_env =
  workflowFilePath :: jsstring
  localFile :: "jsstring option"
  getContent :: "getContent_params \<Rightarrow> js_error + jsval"
  createOrUpdateFileContents :: "requestData \<Rightarrow> js_error + jsval"

definition getContentParams :: getContent_params where
  "getContentParams =
     \<lparr>getContent_params.owner = js OWNER, getContent_params.repo = js REPO,
      getContent_params.path = js WORKFLOW_PATH, getContent_params.ref = js BRANCH\<rparr>"

text \<open>
  Lines 52 to 68: the value of \<open>existingFile\<close> after the inner \<open>try\<close>, or the rethrown
  error.
\<close>

definition checkExisting :: "push_env \<Rightarrow> js_error + jsval" where
  "checkExisting env =
     (case getContent env getContentParams of
        Inr data' \<Rightarrow> Inr data'
      | Inl error \<Rightarrow> if status error = Some 404 then Inr JNull else Inl error)"

text \<open>Lines 71 to 85: the request object, with \<open>sha\<close> added for an existing file.\<close>

definition prepareRequest :: "jsstring \<Rightarrow> jsval \<Rightarrow> js_error + requestData" where
  "prepareRequest contentBase64 existingFile =
     (let requestData =
        \<lparr>owner = js OWNER,
         repo = js REPO,
         path = js WORKFLOW_PATH,
         message =
           (if truthy existingFile then js ''Update CodeQL manual trigger workflow''
            else js ''Add CodeQL manual trigger workflow''),
         content = contentBase64,
         branch = js BRANCH,
         sha = None\<rparr>
      in if truthy existingFile then
           andThen (getProp existingFile ''sha'') (\<lambda>s. Inr (requestData\<lparr>sha := Some s\<rparr>))
         else Inr requestData)"

text \<open>
  The body of the outer \<open>try\<close>: the Octokit calls issued, in order, and the value returned
  or the error thrown.
\<close>

definition pushWorkflowBody :: "push_env \<Rightarrow> api_call list \<times> (js_error + jsval)" where
  "pushWorkflowBody env =
     (case localFile env of
        None \<Rightarrow> ([], Inl (Error (js ''Workflow file not found: '' @ workflowFilePath env)))
      | Some workflowContent \<Rightarrow>
          let contentBase64 = base64 (utf8_encode workflowContent) in
          (case checkExisting env of
             Inl error \<Rightarrow> ([GetContent getContentParams], Inl error)
           | Inr existingFile \<Rightarrow>
               (case prepareRequest contentBase64 existingFile of
                  Inl error \<Rightarrow> ([GetContent getContentParams], Inl error)
                | Inr requestData \<Rightarrow>
                    ([GetContent getContentParams, CreateOrUpdateFileContents requestData],
                     andThen (createOrUpdateFileContents env requestData) (\<lambda>responseData.
                       andThen (getProp responseData ''commit'') (\<lambda>commit.
                       andThen (interpolate commit ''html_url'') (\<lambda>_.
                       Inr responseData)))))))"

text \<open>
  The outer \<open>catch\<close> logs the error and ends the process with \<open>process.exit(1)\<close>.
\<close>

datatype push_outcome =
    Returned jsval
  | Exited nat js_error

definition pushWorkflow :: "push_env \<Rightarrow> api_call list \<times> push_outcome" where
  "pushWorkflow env =
     (case pushWorkflowBody env of
        (calls, Inr responseData) \<Rightarrow> (calls, Returned responseData)
      | (calls, Inl error) \<Rightarrow> (calls, Exited 1 error))"

section \<open>Properties\<close>

lemma collect_concat: "collect chunks = concat chunks"
proof -
  have "foldl (\<lambda>r c. r @ c) acc chunks = acc @ concat chunks" for acc :: jsstring
    by (induction chunks arbitrary: acc) simp_all
  then show ?thesis by (simp add: collect_def)
qed

subsection \<open>Sequencing\<close>

lemma andThen_simps [simp]:
  "andThen (Inl e) f = Inl e"
  "andThen (Inr v) f = f v"
  by (simp_all add: andThen_def)

lemma andThen_Inr_iff: "andThen r f = Inr y \<longleftrightarrow> (\<exists>v. r = Inr v \<and> f v = Inr y)"
  by (cases r) simp_all

lemma andThen_InrE:
  assumes "andThen r f = Inr y"
  obtains v where "r = Inr v" and "f v = Inr y"
  using assms by (cases r) simp_all

subsection \<open>The decimal rendering of a status code\<close>

lemma digit_unat: "d < 10 \<Longrightarrow> unat (of_nat (48 + d) :: 16 word) = 48 + d"
  by (rule of_nat_inverse [OF refl]) simp

lemma numToString_digits: "c \<in> set (numToString n) \<Longrightarrow> 48 \<le> unat c \<and> unat c \<le> 57"
proof (induction n arbitrary: c rule: numToString.induct)
  case (1 n)
  show ?case
  proof (cases "n < 10")
    case True
    with "1.prems" have "c = of_nat (48 + n)" by (simp add: numToString.simps)
    with True show ?thesis using digit_unat [of n] by simp
  next
    case False
    with "1.prems" have "c \<in> set (numToString (n div 10)) \<or> c = of_nat (48 + n mod 10)"
      by (subst (asm) numToString.simps) auto
    then show ?thesis
    proof
      assume "c \<in> set (numToString (n div 10))"
      with False "1.IH" show ?thesis by blast
    next
      assume "c = of_nat (48 + n mod 10)"
      then show ?thesis using digit_unat [of "n mod 10"] by simp
    qed
  qed
qed

lemma numToString_no_colon: "0x3A \<notin> set (numToString n)"
proof
  assume "0x3A \<in> set (numToString n)"
  then have "unat (0x3A :: 16 word) \<le> 57" using numToString_digits by blast
  then show False by simp
qed

text \<open>Reading the digits back gives the number, so the rendering is injective.\<close>

lemma numToString_value:
  "foldl (\<lambda>a c. 10 * a + (unat c - 48)) 0 (numToString n) = n"
proof (induction n rule: numToString.induct)
  case (1 n)
  show ?case
  proof (cases "n < 10")
    case True
    then show ?thesis using digit_unat [of n] by (simp add: numToString.simps)
  next
    case False
    have "numToString n = numToString (n div 10) @ [of_nat (48 + n mod 10)]"
      using False by (subst numToString.simps) simp
    then show ?thesis using "1.IH" [OF False] digit_unat [of "n mod 10"] by simp
  qed
qed

lemma numToString_inj: "numToString m = numToString n \<Longrightarrow> m = n"
  by (metis numToString_value)

lemma split_at_separator:
  assumes "c \<notin> set xs" and "c \<notin> set ys" and "xs @ c # r = ys @ c # r'"
  shows "xs = ys \<and> r = r'"
proof -
  have "takeWhile (\<lambda>x. x \<noteq> c) (xs @ c # r) = xs"
    using assms(1) by (simp add: takeWhile_tail) blast
  moreover have "takeWhile (\<lambda>x. x \<noteq> c) (ys @ c # r') = ys"
    using assms(2) by (simp add: takeWhile_tail) blast
  ultimately have "xs = ys" using assms(3) by simp
  with assms(3) show ?thesis by simp
qed

text \<open>The message \<open>HTTP <status>: <body>\<close> determines both the status and the body.\<close>

lemma httpMessage_inj:
  assumes "js ''HTTP '' @ numToString m @ js '': '' @ b
         = js ''HTTP '' @ numToString n @ js '': '' @ b'"
  shows "m = n \<and> b = b'"
proof -
  from assms have "numToString m @ 0x3A # (0x20 # b) = numToString n @ 0x3A # (0x20 # b')"
    by (simp add: js_def)
  then have "numToString m = numToString n \<and> 0x20 # b = 0x20 # b'"
    using split_at_separator [OF numToString_no_colon numToString_no_colon] by blast
  then show ?thesis using numToString_inj by simp
qed

subsection \<open>What each operation does with the response\<close>

lemma triggerWorkflow_response:
  assumes "https_request env
             (requestOptions (GITHUB_TOKEN env)
                (stringify (payloadOf (case options of None \<Rightarrow> Map.empty | Some ob \<Rightarrow> ob))))
             (utf8_encode
                (stringify (payloadOf (case options of None \<Rightarrow> Map.empty | Some ob \<Rightarrow> ob))))
           = Response st chunks"
  shows "triggerWorkflow env options = triggerOnEnd st (concat chunks)"
  using assms by (simp add: triggerWorkflow_def Let_def collect_concat)

lemma makeRequest_response:
  assumes "https_request env
             (makeRequestOptions (GITHUB_TOKEN env) p (case m of None \<Rightarrow> js ''GET'' | Some x \<Rightarrow> x) d)
             (makeRequestBody d) = Response st chunks"
  shows "makeRequest env p m d = makeRequestOnEnd (JSON_parse env) st (concat chunks)"
  using assms by (simp add: makeRequest_def Let_def collect_concat)

lemma makeRequest_failed:
  assumes "https_request env
             (makeRequestOptions (GITHUB_TOKEN env) p (case m of None \<Rightarrow> js ''GET'' | Some x \<Rightarrow> x) d)
             (makeRequestBody d) = RequestFailed e"
  shows "makeRequest env p m d = Inl e"
  using assms by (simp add: makeRequest_def Let_def)

text \<open>The four operations of the manager pass a rejection of \<open>makeRequest\<close> on.\<close>

lemma manager_operations_rethrow:
  "makeRequest env (workflowsPath @ js ''/'' @ workflowFile @ js ''/disable'') (Some (js ''PUT'')) None = Inl e
     \<Longrightarrow> disableWorkflow env workflowFile = Inl e"
  "makeRequest env (workflowsPath @ js ''/'' @ workflowFile @ js ''/enable'') (Some (js ''PUT'')) None = Inl e
     \<Longrightarrow> enableWorkflow env workflowFile = Inl e"
  "makeRequest env (workflowsPath @ js ''/'' @ workflowFile) None None = Inl e
     \<Longrightarrow> getWorkflowStatus env workflowFile = Inl e"
  "makeRequest env workflowsPath None None = Inl e \<Longrightarrow> listWorkflows env = Inl e"
  by (simp_all add: disableWorkflow_def enableWorkflow_def getWorkflowStatus_def listWorkflows_def)

subsection \<open>Dispatch\<close>

text \<open>
  Claim C3. Whatever response the dispatch request gets, \<open>triggerWorkflow\<close> resolves exactly
  when the status code is 204; for every other status, other 2xx codes included, it rejects
  with the error whose message is \<open>HTTP <status>: <response body>\<close>.
\<close>

theorem dispatch_succeeds_only_on_204:
  assumes "https_request env
             (requestOptions (GITHUB_TOKEN env)
                (stringify (payloadOf (case options of None \<Rightarrow> Map.empty | Some ob \<Rightarrow> ob))))
             (utf8_encode
                (stringify (payloadOf (case options of None \<Rightarrow> Map.empty | Some ob \<Rightarrow> ob))))
           = Response st chunks"
  shows "triggerWorkflow env options =
           (if st = 204 then Inr \<lparr>success = True, trigger_result.statusCode = 204\<rparr>
            else Inl (Error (js ''HTTP '' @ numToString st @ js '': '' @ concat chunks)))
       \<and> ((\<exists>r. triggerWorkflow env options = Inr r) \<longleftrightarrow> st = 204)"
  using triggerWorkflow_response [OF assms] by (simp add: triggerOnEnd_def)

theorem dispatch_succeeds_only_on_204_witness:
  "triggerWorkflow
     \<lparr>GITHUB_TOKEN = js ''t'', https_request = (\<lambda>req body. Response 200 [js ''OK''])\<rparr> None
     = Inl (Error (js ''HTTP 200: OK''))
   \<and> triggerWorkflow
       \<lparr>GITHUB_TOKEN = js ''t'', https_request = (\<lambda>req body. Response 204 [])\<rparr> None
     = Inr \<lparr>success = True, trigger_result.statusCode = 204\<rparr>"
proof -
  have n: "numToString 200 = js ''200''" by (simp add: numToString.simps js_def)
  have a: "triggerWorkflow
     \<lparr>GITHUB_TOKEN = js ''t'', https_request = (\<lambda>req body. Response 200 [js ''OK''])\<rparr> None
     = Inl (Error (js ''HTTP 200: OK''))"
    using dispatch_succeeds_only_on_204
      [of "\<lparr>GITHUB_TOKEN = js ''t'', https_request = (\<lambda>req body. Response 200 [js ''OK''])\<rparr>"
          None 200 "[js ''OK'']"]
    by (simp add: n) (simp add: js_def)
  have b: "triggerWorkflow
     \<lparr>GITHUB_TOKEN = js ''t'', https_request = (\<lambda>req body. Response 204 [])\<rparr> None
     = Inr \<lparr>success = True, trigger_result.statusCode = 204\<rparr>"
    using dispatch_succeeds_only_on_204
      [of "\<lparr>GITHUB_TOKEN = js ''t'', https_request = (\<lambda>req body. Response 204 [])\<rparr>"
          None 204 "[]"]
    by simp
  from a b show ?thesis by simp
qed

lemma payloadOf_empty:
  "payloadOf Map.empty =
     \<lparr>payload.ref = OStr (js ''main''),
      inputs = \<lparr>languages = OStr (js ''javascript-typescript,actions''),
                queries = OStr (js ''security-extended''),
                upload_sarif = OStr (js ''true'')\<rparr>\<rparr>"
  by (simp add: payloadOf_def orDefault_def)

lemma stringify_default:
  \<open>stringify (payloadOf Map.empty) =
     js ''{"ref":"main","inputs":{"languages":"javascript-typescript,actions","queries":"security-extended","upload_sarif":"true"}}''\<close>
  by (simp add: payloadOf_def orDefault_def stringify_def quoteJSONString_def js_def
        isHighSurrogate_def isLowSurrogate_def)

text \<open>
  Claim C10. Called without options (or with an empty options object), \<open>triggerWorkflow\<close>
  builds the payload with ref \<open>main\<close> and the inputs \<open>javascript-typescript,actions\<close>,
  \<open>security-extended\<close> and \<open>true\<close>, and posts exactly its JSON text; a boolean upload flag
  is always sent as the string \<open>true\<close> or \<open>false\<close>.
\<close>

theorem dispatch_defaults:
  \<open>payloadOf Map.empty =
     \<lparr>payload.ref = OStr (js ''main''),
      inputs = \<lparr>languages = OStr (js ''javascript-typescript,actions''),
                queries = OStr (js ''security-extended''),
                upload_sarif = OStr (js ''true'')\<rparr>\<rparr>
   \<and> triggerWorkflow env None = triggerWorkflow env (Some Map.empty)
   \<and> triggerWorkflow env None =
       (case https_request env
               (requestOptions (GITHUB_TOKEN env)
                  (js ''{"ref":"main","inputs":{"languages":"javascript-typescript,actions","queries":"security-extended","upload_sarif":"true"}}''))
               (utf8_encode
                  (js ''{"ref":"main","inputs":{"languages":"javascript-typescript,actions","queries":"security-extended","upload_sarif":"true"}}''))
        of Response st chunks \<Rightarrow> triggerOnEnd st (collect chunks)
         | RequestFailed e \<Rightarrow> Inl e)
   \<and> (\<forall>opts b. upload_sarif (inputs (payloadOf (opts(''uploadSarif'' \<mapsto> OBool b))))
                = OStr (js (if b then ''true'' else ''false'')))\<close>
proof -
  have "triggerWorkflow env None = triggerWorkflow env (Some Map.empty)"
    by (simp add: triggerWorkflow_def)
  moreover have \<open>triggerWorkflow env None =
       (case https_request env
               (requestOptions (GITHUB_TOKEN env)
                  (js ''{"ref":"main","inputs":{"languages":"javascript-typescript,actions","queries":"security-extended","upload_sarif":"true"}}''))
               (utf8_encode
                  (js ''{"ref":"main","inputs":{"languages":"javascript-typescript,actions","queries":"security-extended","upload_sarif":"true"}}''))
        of Response st chunks \<Rightarrow> triggerOnEnd st (collect chunks)
         | RequestFailed e \<Rightarrow> Inl e)\<close>
    unfolding triggerWorkflow_def Let_def option.case stringify_default ..
  moreover have "\<forall>opts b. upload_sarif (inputs (payloadOf (opts(''uploadSarif'' \<mapsto> OBool b))))
                = OStr (js (if b then ''true'' else ''false''))"
    by (simp add: payloadOf_def orDefault_def)
  ultimately show ?thesis using payloadOf_empty by simp
qed

text \<open>Options other than the four that are read do not reach the payload.\<close>

lemma other_options_ignored:
  assumes "k \<noteq> ''languages''" and "k \<noteq> ''queries''" and "k \<noteq> ''uploadSarif''" and "k \<noteq> ''ref''"
  shows "payloadOf (opts(k \<mapsto> v)) = payloadOf opts"
  using assms by (simp add: payloadOf_def)

text \<open>A string of printable characters without quote and backslash is quoted as it is.\<close>

lemma quoteChars_plain:
  assumes "\<forall>c \<in> set s. 0x20 \<le> c \<and> c \<noteq> 0x22 \<and> c \<noteq> 0x5C
                        \<and> \<not> isHighSurrogate c \<and> \<not> isLowSurrogate c"
  shows "quoteChars s = s"
  using assms
proof (induction s)
  case Nil
  then show ?case by simp
next
  case (Cons c cs)
  then have c: "0x20 \<le> c" "c \<noteq> 0x22" "c \<noteq> 0x5C" "\<not> isHighSurrogate c" "\<not> isLowSurrogate c"
    by simp_all
  from c(1) have "32 \<le> unat c" by (simp add: word_le_nat_alt)
  then have "c \<noteq> 0x08" "c \<noteq> 0x09" "c \<noteq> 0x0A" "c \<noteq> 0x0C" "c \<noteq> 0x0D" "\<not> c < 0x20"
    by (auto simp: word_less_nat_alt)
  with c Cons show ?case by simp
qed

text \<open>The JSON text \<open>triggerWorkflow\<close> writes, in terms of the options it was given.\<close>

lemma triggerWorkflow_posts:
  \<open>triggerWorkflow env (Some opts) =
     (let posted =
        js ''{"ref":''
          @ stringifyValue (case opts ''ref'' of None \<Rightarrow> OStr (js ''main'') | Some v \<Rightarrow> v)
        @ js '',"inputs":{"languages":''
          @ stringifyValue (case opts ''languages'' of
                              None \<Rightarrow> OStr (js ''javascript-typescript,actions'') | Some v \<Rightarrow> v)
        @ js '',"queries":''
          @ stringifyValue (case opts ''queries'' of
                              None \<Rightarrow> OStr (js ''security-extended'') | Some v \<Rightarrow> v)
        @ js '',"upload_sarif":''
          @ quoteJSONString (case opts ''uploadSarif'' of
                               None \<Rightarrow> js ''true'' | Some v \<Rightarrow> toString v)
        @ js ''}}''
      in case https_request env (requestOptions (GITHUB_TOKEN env) posted) (utf8_encode posted) of
           Response st chunks \<Rightarrow> triggerOnEnd st (collect chunks)
         | RequestFailed e \<Rightarrow> Inl e)\<close>
  by (simp add: triggerWorkflow_def Let_def stringify_def payloadOf_def orDefault_def
        split: option.splits)

text \<open>
  Claim C7, as stated, fails: a supplied upload flag that is the boolean \<open>false\<close> does not
  appear unchanged in the payload (\<open>uploadSarif.toString()\<close> turns it into the string
  \<open>"false"\<close>), and a supplied input under another name (here \<open>dry_run\<close>) does not appear
  at all.
\<close>

theorem inputs_verbatim_counterexample:
  \<open>upload_sarif (inputs (payloadOf
      (map_of [(''uploadSarif'', OBool False), (''dry_run'', OBool True)]))) \<noteq> OBool False
   \<and> stringify (payloadOf
      (map_of [(''uploadSarif'', OBool False), (''dry_run'', OBool True)]))
     = js ''{"ref":"main","inputs":{"languages":"javascript-typescript,actions","queries":"security-extended","upload_sarif":"false"}}''\<close>
  by (simp add: payloadOf_def orDefault_def stringify_def quoteJSONString_def js_def
        isHighSurrogate_def isLowSurrogate_def)

text \<open>
  Claim C7, amended. Of the supplied options only \<open>languages\<close>, \<open>queries\<close>, \<open>uploadSarif\<close>
  and \<open>ref\<close> are read; an option under any other name does not change what is posted. The
  text \<open>triggerWorkflow\<close> writes to the request holds the JSON text of the supplied
  \<open>languages\<close>, \<open>queries\<close> and \<open>ref\<close> values, whatever they are (nothing is validated):
  \<open>true\<close> or \<open>false\<close> for a boolean, the quoted string for a string, with its characters
  unchanged when they are printable and neither quote nor backslash. The supplied upload
  flag is written as the quoted string form of the value. An absent option is filled with
  its default.
\<close>

theorem inputs_forwarded:
  \<open>triggerWorkflow env (Some opts) =
     (let posted =
        js ''{"ref":''
          @ stringifyValue (case opts ''ref'' of None \<Rightarrow> OStr (js ''main'') | Some v \<Rightarrow> v)
        @ js '',"inputs":{"languages":''
          @ stringifyValue (case opts ''languages'' of
                              None \<Rightarrow> OStr (js ''javascript-typescript,actions'') | Some v \<Rightarrow> v)
        @ js '',"queries":''
          @ stringifyValue (case opts ''queries'' of
                              None \<Rightarrow> OStr (js ''security-extended'') | Some v \<Rightarrow> v)
        @ js '',"upload_sarif":''
          @ quoteJSONString (case opts ''uploadSarif'' of
                               None \<Rightarrow> js ''true'' | Some v \<Rightarrow> toString v)
        @ js ''}}''
      in case https_request env (requestOptions (GITHUB_TOKEN env) posted) (utf8_encode posted) of
           Response st chunks \<Rightarrow> triggerOnEnd st (collect chunks)
         | RequestFailed e \<Rightarrow> Inl e)
   \<and> (\<forall>s. stringifyValue (OStr s) = [0x22] @ quoteChars s @ [0x22])
   \<and> (\<forall>b. stringifyValue (OBool b) = js (if b then ''true'' else ''false''))
   \<and> (\<forall>s. quoteJSONString s = [0x22] @ quoteChars s @ [0x22])
   \<and> (\<forall>s. (\<forall>c. c \<in> set s \<longrightarrow> 0x20 \<le> c \<and> c \<noteq> 0x22 \<and> c \<noteq> 0x5C
                                \<and> \<not> isHighSurrogate c \<and> \<not> isLowSurrogate c)
          \<longrightarrow> quoteChars s = s)
   \<and> (\<forall>s. toString (OStr s) = s)
   \<and> (\<forall>b. toString (OBool b) = js (if b then ''true'' else ''false''))
   \<and> (\<forall>k v. k \<noteq> ''languages'' \<and> k \<noteq> ''queries'' \<and> k \<noteq> ''uploadSarif'' \<and> k \<noteq> ''ref''
          \<longrightarrow> triggerWorkflow env (Some (opts(k \<mapsto> v))) = triggerWorkflow env (Some opts))\<close>
proof -
  have q: "\<forall>s. (\<forall>c. c \<in> set s \<longrightarrow> 0x20 \<le> c \<and> c \<noteq> 0x22 \<and> c \<noteq> 0x5C
                                \<and> \<not> isHighSurrogate c \<and> \<not> isLowSurrogate c)
          \<longrightarrow> quoteChars s = s"
    using quoteChars_plain by blast
  have o: "\<forall>k v. k \<noteq> ''languages'' \<and> k \<noteq> ''queries'' \<and> k \<noteq> ''uploadSarif'' \<and> k \<noteq> ''ref''
          \<longrightarrow> triggerWorkflow env (Some (opts(k \<mapsto> v))) = triggerWorkflow env (Some opts)"
    by (simp add: triggerWorkflow_def other_options_ignored)
  show ?thesis
    using triggerWorkflow_posts [of env opts] q o
    by (simp add: quoteJSONString_def)
qed

theorem inputs_forwarded_witness:
  \<open>triggerWorkflow
     \<lparr>GITHUB_TOKEN = js ''t'',
      https_request = (\<lambda>req body.
        if body = utf8_encode (js ''{"ref":"main","inputs":{"languages":"python","queries":"security-extended","upload_sarif":"false"}}'')
        then Response 204 [] else Response 400 [])\<rparr>
     (Some [''languages'' \<mapsto> OStr (js ''python''), ''uploadSarif'' \<mapsto> OBool False])
   = Inr \<lparr>success = True, trigger_result.statusCode = 204\<rparr>\<close>
proof -
  have p: "quoteChars (js ''python'') = js ''python''"
    and m: "quoteChars (js ''main'') = js ''main''"
    and s: "quoteChars (js ''security-extended'') = js ''security-extended''"
    and f: "quoteChars (js ''false'') = js ''false''"
    using inputs_forwarded [THEN conjunct2, THEN conjunct2, THEN conjunct2, THEN conjunct2,
      THEN conjunct1]
    by (simp_all add: js_def isHighSurrogate_def isLowSurrogate_def)
  show ?thesis
    using inputs_forwarded
      [of \<open>\<lparr>GITHUB_TOKEN = js ''t'',
      https_request = (\<lambda>req body.
        if body = utf8_encode (js ''{"ref":"main","inputs":{"languages":"python","queries":"security-extended","upload_sarif":"false"}}'')
        then Response 204 [] else Response 400 [])\<rparr>\<close>
        "[''languages'' \<mapsto> OStr (js ''python''), ''uploadSarif'' \<mapsto> OBool False]",
       THEN conjunct1]
    by (simp add: Let_def quoteJSONString_def p m s f triggerOnEnd_def) (simp add: js_def)
qed

subsection \<open>Status codes in errors\<close>

text \<open>
  Claim C8. A response with status 401 or 403 makes both response handlers reject, with the
  error whose message is \<open>HTTP <status>: <body>\<close>, and so do the operations \<open>makeRequest\<close>
  and \<open>triggerWorkflow\<close> that receive it; no response with another status or body gives the
  same outcome, so the status is recoverable from the error and is never turned into
  another one or into success.
\<close>

theorem auth_errors_keep_status:
  assumes "st = 401 \<or> st = 403"
  shows "makeRequestOnEnd parse st body
           = Inl (Error (js ''HTTP '' @ numToString st @ js '': '' @ body))
       \<and> triggerOnEnd st body = Inl (Error (js ''HTTP '' @ numToString st @ js '': '' @ body))
       \<and> (\<forall>st' body'. makeRequestOnEnd parse st' body' = makeRequestOnEnd parse st body
              \<longrightarrow> st' = st \<and> body' = body)
       \<and> (\<forall>st' body'. triggerOnEnd st' body' = triggerOnEnd st body
              \<longrightarrow> st' = st \<and> body' = body)
       \<and> (\<forall>env p m d chunks.
             https_request (env :: 'a mgr_env_scheme)
               (makeRequestOptions (GITHUB_TOKEN env) p (case m of None \<Rightarrow> js ''GET'' | Some x \<Rightarrow> x) d)
               (makeRequestBody d) = Response st chunks
             \<longrightarrow> makeRequest env p m d
                   = Inl (Error (js ''HTTP '' @ numToString st @ js '': '' @ concat chunks)))
       \<and> (\<forall>env options chunks.
             https_request env
               (requestOptions (GITHUB_TOKEN env)
                  (stringify (payloadOf (case options of None \<Rightarrow> Map.empty | Some ob \<Rightarrow> ob))))
               (utf8_encode
                  (stringify (payloadOf (case options of None \<Rightarrow> Map.empty | Some ob \<Rightarrow> ob))))
               = Response st chunks
             \<longrightarrow> triggerWorkflow env options
                   = Inl (Error (js ''HTTP '' @ numToString st @ js '': '' @ concat chunks)))"
proof -
  have m: "makeRequestOnEnd parse st body
             = Inl (Error (js ''HTTP '' @ numToString st @ js '': '' @ body))" for parse body
    using assms by (auto simp: makeRequestOnEnd_def)
  have t: "triggerOnEnd st body = Inl (Error (js ''HTTP '' @ numToString st @ js '': '' @ body))"
    for body
    using assms by (auto simp: triggerOnEnd_def)
  have mi: "st' = st \<and> body' = body"
    if "makeRequestOnEnd parse st' body' = makeRequestOnEnd parse st body" for st' body'
  proof -
    from that m have "makeRequestOnEnd parse st' body'
        = Inl (Error (js ''HTTP '' @ numToString st @ js '': '' @ body))" by simp
    then have "js ''HTTP '' @ numToString st' @ js '': '' @ body'
        = js ''HTTP '' @ numToString st @ js '': '' @ body"
      by (simp add: makeRequestOnEnd_def split: if_splits option.splits)
    then show ?thesis by (rule httpMessage_inj)
  qed
  have ti: "st' = st \<and> body' = body"
    if "triggerOnEnd st' body' = triggerOnEnd st body" for st' body'
  proof -
    from that t have "triggerOnEnd st' body'
        = Inl (Error (js ''HTTP '' @ numToString st @ js '': '' @ body))" by simp
    then have "js ''HTTP '' @ numToString st' @ js '': '' @ body'
        = js ''HTTP '' @ numToString st @ js '': '' @ body"
      by (simp add: triggerOnEnd_def split: if_splits)
    then show ?thesis by (rule httpMessage_inj)
  qed
  have mo: "makeRequest env p m' d
              = Inl (Error (js ''HTTP '' @ numToString st @ js '': '' @ concat chunks))"
    if "https_request env
               (makeRequestOptions (GITHUB_TOKEN env) p (case m' of None \<Rightarrow> js ''GET'' | Some x \<Rightarrow> x) d)
               (makeRequestBody d) = Response st chunks"
    for env :: "'a mgr_env_scheme" and p m' d chunks
    using makeRequest_response [OF that] m by simp
  have to: "triggerWorkflow env options
              = Inl (Error (js ''HTTP '' @ numToString st @ js '': '' @ concat chunks))"
    if "https_request env
               (requestOptions (GITHUB_TOKEN env)
                  (stringify (payloadOf (case options of None \<Rightarrow> Map.empty | Some ob \<Rightarrow> ob))))
               (utf8_encode
                  (stringify (payloadOf (case options of None \<Rightarrow> Map.empty | Some ob \<Rightarrow> ob))))
               = Response st chunks"
    for env options chunks
    using triggerWorkflow_response [OF that] t by simp
  from m t mi ti mo to show ?thesis by blast
qed

theorem auth_errors_keep_status_witness:
  "makeRequestOnEnd (\<lambda>s. None) 403 (js ''no'') = Inl (Error (js ''HTTP 403: no''))
   \<and> triggerOnEnd 403 (js ''no'') = Inl (Error (js ''HTTP 403: no''))
   \<and> makeRequest
       \<lparr>GITHUB_TOKEN = js ''t'', https_request = (\<lambda>req body. Response 403 [js ''no'']),
        JSON_parse = (\<lambda>s. None)\<rparr> (js ''/x'') None None
     = Inl (Error (js ''HTTP 403: no''))"
proof -
  have n: "numToString 403 = js ''403''" by (simp add: numToString.simps js_def)
  have "(403::nat) = 401 \<or> (403::nat) = 403" by simp
  note th = auth_errors_keep_status [OF this, of "\<lambda>s. None" "js ''no''"]
  from th have a: "makeRequestOnEnd (\<lambda>s. None) 403 (js ''no'')
          = Inl (Error (js ''HTTP '' @ numToString 403 @ js '': '' @ js ''no''))
      \<and> triggerOnEnd 403 (js ''no'')
          = Inl (Error (js ''HTTP '' @ numToString 403 @ js '': '' @ js ''no''))"
    by blast
  from th have "\<forall>env p m d chunks.
             https_request (env :: unit mgr_env_scheme)
               (makeRequestOptions (GITHUB_TOKEN env) p (case m of None \<Rightarrow> js ''GET'' | Some x \<Rightarrow> x) d)
               (makeRequestBody d) = Response 403 chunks
             \<longrightarrow> makeRequest env p m d
                   = Inl (Error (js ''HTTP '' @ numToString 403 @ js '': '' @ concat chunks))"
    by blast
  from this [rule_format,
       of "\<lparr>GITHUB_TOKEN = js ''t'', https_request = (\<lambda>req body. Response 403 [js ''no'']),
        JSON_parse = (\<lambda>s. None)\<rparr>" "js ''/x''" None None "[js ''no'']"]
  have b: "makeRequest
       \<lparr>GITHUB_TOKEN = js ''t'', https_request = (\<lambda>req body. Response 403 [js ''no'']),
        JSON_parse = (\<lambda>s. None)\<rparr> (js ''/x'') None None
     = Inl (Error (js ''HTTP '' @ numToString 403 @ js '': '' @ js ''no''))"
    by simp
  from a b show ?thesis by (simp add: n js_def)
qed

subsection \<open>The body of a successful response\<close>

text \<open>
  Claim C4, as stated, fails for the empty body: a 204 response with no text does not
  resolve with the raw (empty) text as its body. (The parser here rejects every text, the
  empty one included, as \<open>JSON.parse\<close> does; it is not even called.)
\<close>

theorem empty_body_counterexample:
  "makeRequestOnEnd (map_of []) 204 [] \<noteq> Inr \<lparr>statusCode = 204, data = JStr []\<rparr>"
  by (simp add: makeRequestOnEnd_def)

text \<open>
  Claim C4, amended. When the response has a 2xx status, \<open>makeRequest\<close> resolves with the
  status and a body that is the empty object when the response text is empty, the parsed
  value when the text is not empty and parses as JSON, and the raw text otherwise.
\<close>

theorem transport_success_body:
  assumes "https_request env
             (makeRequestOptions (GITHUB_TOKEN env) p (case m of None \<Rightarrow> js ''GET'' | Some x \<Rightarrow> x) d)
             (makeRequestBody d) = Response st chunks"
      and "200 \<le> st" and "st < 300"
  shows "makeRequest env p m d =
           Inr \<lparr>statusCode = st,
                data = (if concat chunks = [] then JObj []
                        else case JSON_parse env (concat chunks) of
                               Some parsed \<Rightarrow> parsed
                             | None \<Rightarrow> JStr (concat chunks))\<rparr>"
  using makeRequest_response [OF assms(1)] assms(2,3)
  by (simp add: makeRequestOnEnd_def split: option.splits)

theorem transport_success_body_witness:
  "makeRequest
     \<lparr>GITHUB_TOKEN = js ''t'', https_request = (\<lambda>req body. Response 200 [js ''O'', js ''K'']),
      JSON_parse = (\<lambda>s. None)\<rparr> (js ''/x'') None None
     = Inr \<lparr>statusCode = 200, data = JStr (js ''OK'')\<rparr>
   \<and> makeRequest
     \<lparr>GITHUB_TOKEN = js ''t'', https_request = (\<lambda>req body. Response 204 []),
      JSON_parse = (\<lambda>s. None)\<rparr> (js ''/x'') (Some (js ''PUT'')) None
     = Inr \<lparr>statusCode = 204, data = JObj []\<rparr>"
  using
    transport_success_body
      [of "\<lparr>GITHUB_TOKEN = js ''t'', https_request = (\<lambda>req body. Response 200 [js ''O'', js ''K'']),
            JSON_parse = (\<lambda>s. None)\<rparr>" "js ''/x''" None None 200 "[js ''O'', js ''K'']"]
    transport_success_body
      [of "\<lparr>GITHUB_TOKEN = js ''t'', https_request = (\<lambda>req body. Response 204 []),
            JSON_parse = (\<lambda>s. None)\<rparr>" "js ''/x''" "Some (js ''PUT'')" None 204 "[]"]
  by (simp add: js_def)

subsection \<open>Content-Length\<close>

lemma trigger_content_length:
  "map_of (headers (requestOptions tok d)) ''Content-Length'' = Some (HNum (length d))"
  by (simp add: requestOptions_def)

text \<open>\<open>makeRequest\<close> announces the number of bytes it writes.\<close>

lemma makeRequest_content_length:
  "d \<noteq> [] \<Longrightarrow>
     map_of (headers (makeRequestOptions tok p m (Some d))) ''Content-Length''
       = Some (HNum (length (makeRequestBody (Some d))))"
  by (simp add: makeRequestOptions_def makeRequestBody_def byteLength_def)

text \<open>For ASCII text the number of code units is the number of bytes.\<close>

lemma ascii_utf8_length: "\<forall>c \<in> set s. c < 0x80 \<Longrightarrow> length (utf8_encode s) = length s"
proof (induction s)
  case Nil
  then show ?case by simp
next
  case (Cons c cs)
  then have c: "c < 0x80" by simp
  from c have u: "unat c < 0x80" by (simp add: word_less_nat_alt)
  then have "\<not> isHighSurrogate c" "\<not> isLowSurrogate c"
    by (auto simp: isHighSurrogate_def isLowSurrogate_def word_le_nat_alt)
  moreover note u
  ultimately show ?case using Cons by (simp add: utf8_codepoint_def)
qed

lemma utf8_codepoint_length:
  "length (utf8_codepoint n) = (if n < 0x80 then 1 else if n < 0x800 then 2 else if n < 0x10000 then 3 else 4)"
  by (simp add: utf8_codepoint_def)

lemma utf8_length_ge: "length s \<le> length (utf8_encode s)"
proof (induction s rule: utf8_encode.induct)
  case 1
  then show ?case by simp
next
  case (2 c cs)
  show ?case
  proof (cases "isHighSurrogate c")
    case True
    show ?thesis
    proof (cases cs)
      case Nil
      with True show ?thesis by (simp add: utf8_codepoint_length)
    next
      case (Cons d ds)
      show ?thesis
      proof (cases "isLowSurrogate d")
        case low: True
        with True Cons "2.IH"(1) show ?thesis by (simp add: utf8_codepoint_length)
      next
        case False
        with True Cons "2.IH"(2) show ?thesis by (simp add: utf8_codepoint_length)
      qed
    qed
  next
    case False
    then show ?thesis using "2.IH"(3,4) by (cases "isLowSurrogate c") (simp_all add: utf8_codepoint_length)
  qed
qed

lemma utf8_length_eq_iff:
  "length (utf8_encode s) = length s \<longleftrightarrow> (\<forall>c \<in> set s. c < 0x80)"
proof
  assume "\<forall>c \<in> set s. c < 0x80"
  then show "length (utf8_encode s) = length s" by (rule ascii_utf8_length)
next
  assume "length (utf8_encode s) = length s"
  then show "\<forall>c \<in> set s. c < 0x80"
  proof (induction s rule: utf8_encode.induct)
    case 1
    then show ?case by simp
  next
    case (2 c cs)
    have hs: "\<not> c < 0x80" if "isHighSurrogate c \<or> isLowSurrogate c"
      using that by (auto simp: isHighSurrogate_def isLowSurrogate_def word_le_nat_alt word_less_nat_alt)
    show ?case
    proof (cases "isHighSurrogate c")
      case True
      show ?thesis
      proof (cases cs)
        case Nil
        with True "2.prems" show ?thesis by (simp add: utf8_codepoint_length)
      next
        case (Cons d ds)
        show ?thesis
        proof (cases "isLowSurrogate d")
          case low: True
          with True Cons "2.prems" utf8_length_ge [of ds] show ?thesis
            by (simp add: utf8_codepoint_length)
        next
          case False
          with True Cons "2.prems" utf8_length_ge [of cs] show ?thesis
            by (simp add: utf8_codepoint_length)
        qed
      qed
    next
      case False
      show ?thesis
      proof (cases "isLowSurrogate c")
        case True
        with False "2.prems" utf8_length_ge [of cs] show ?thesis
          by (simp add: utf8_codepoint_length)
      next
        case low: False
        from False low "2.prems"
        have l: "length (utf8_codepoint (unat c)) + length (utf8_encode cs) = Suc (length cs)"
          by simp
        with utf8_length_ge [of cs] have one: "length (utf8_codepoint (unat c)) = 1"
          and rest: "length (utf8_encode cs) = length cs"
          by (auto simp: utf8_codepoint_length split: if_splits)
        from one have "unat c < 0x80" by (simp add: utf8_codepoint_length split: if_splits)
        then have "c < 0x80" by (simp add: word_less_nat_alt)
        moreover from "2.IH"(4) [OF False low rest] have "\<forall>c \<in> set cs. c < 0x80" .
        ultimately show ?thesis by simp
      qed
    qed
  qed
qed

text \<open>
  So the header of \<open>triggerWorkflow\<close> is the number of bytes written exactly when the JSON
  text is pure ASCII.
\<close>

lemma trigger_content_length_right_iff_ascii:
  "map_of (headers (requestOptions tok d)) ''Content-Length''
     = Some (HNum (length (utf8_encode d)))
   \<longleftrightarrow> (\<forall>c \<in> set d. c < 0x80)"
  using utf8_length_eq_iff [of d] by (auto simp: trigger_content_length)

text \<open>
  Claim C6 asks that Content-Length be the UTF-8 byte length of the serialized body, also for
  non-ASCII bodies. \<open>triggerWorkflow\<close> sets it to \<open>data.length\<close>, the number of UTF-16 code
  units: for the option \<open>ref\<close> = U+00E9 the header says 118 while 119 bytes are written.
\<close>

theorem trigger_content_length_non_ascii:
  "map_of (headers (requestOptions (js ''t'') (stringify (payloadOf [''ref'' \<mapsto> OStr [0xE9]]))))
      ''Content-Length'' = Some (HNum 118)
   \<and> length (utf8_encode (stringify (payloadOf [''ref'' \<mapsto> OStr [0xE9]]))) = 119"
  by (simp add: requestOptions_def payloadOf_def orDefault_def stringify_def quoteJSONString_def
        js_def isHighSurrogate_def isLowSurrogate_def utf8_codepoint_def)

subsection \<open>Listing workflows\<close>

lemma forEachElem_Inr_iff:
  "forEachElem ws f = Inr u \<longleftrightarrow> (\<forall>w \<in> set ws. f w = Inr ())"
proof (induction ws)
  case Nil
  then show ?case by simp
next
  case (Cons w ws)
  then show ?case by (cases "f w") simp_all
qed

lemma forEach_Inr_array: "forEach w f = Inr u \<Longrightarrow> \<exists>ws. w = JArr ws"
  by (cases w) simp_all

lemma interpolate_length_array: "interpolate (JArr ws) ''length'' = Inr ()"
  by (simp add: interpolate_def)

lemma listCallback_Inr_iff:
  "listCallback w = Inr u \<longleftrightarrow>
     w \<noteq> JUndefined \<and> w \<noteq> JNull
     \<and> interpolate w ''name'' = Inr () \<and> interpolate w ''path'' = Inr ()
     \<and> interpolate w ''state'' = Inr () \<and> interpolate w ''id'' = Inr ()"
proof -
  have n: "(\<exists>x. getProp w ''state'' = Inr x) \<longleftrightarrow> w \<noteq> JUndefined \<and> w \<noteq> JNull"
    by (cases w) simp_all
  show ?thesis
    unfolding listCallback_def using n
    by (auto simp: andThen_Inr_iff)
qed

text \<open>When the response handler returns.\<close>

lemma listResponse_Inr_iff:
  "listResponse r = Inr r' \<longleftrightarrow>
     r' = r \<and> (\<exists>ws. getProp (data r) ''workflows'' = Inr (JArr ws)
                 \<and> (\<forall>w \<in> set ws. listCallback w = Inr ()))"
proof
  assume "listResponse r = Inr r'"
  then have "andThen (getProp (data r) ''workflows'') (\<lambda>workflows.
     andThen (interpolate workflows ''length'') (\<lambda>_.
     andThen (forEach workflows listCallback) (\<lambda>_. Inr r))) = Inr r'"
    by (simp add: listResponse_def)
  then obtain w where w: "getProp (data r) ''workflows'' = Inr w"
    and rest: "andThen (interpolate w ''length'') (\<lambda>_.
     andThen (forEach w listCallback) (\<lambda>_. Inr r)) = Inr r'"
    by (rule andThen_InrE)
  from rest obtain l where "andThen (forEach w listCallback) (\<lambda>_. Inr r) = Inr r'"
    by (rule andThen_InrE)
  then obtain u where fe: "forEach w listCallback = Inr u"
    and rr: "(Inr r :: js_error + response) = Inr r'"
    by (rule andThen_InrE)
  from fe obtain ws where ws: "w = JArr ws" using forEach_Inr_array by blast
  with fe have "\<forall>w \<in> set ws. listCallback w = Inr ()"
    using forEachElem_Inr_iff [of ws listCallback u] by simp
  with w ws rr show "r' = r \<and> (\<exists>ws. getProp (data r) ''workflows'' = Inr (JArr ws)
                 \<and> (\<forall>w \<in> set ws. listCallback w = Inr ()))"
    by auto
next
  assume "r' = r \<and> (\<exists>ws. getProp (data r) ''workflows'' = Inr (JArr ws)
                 \<and> (\<forall>w \<in> set ws. listCallback w = Inr ()))"
  then obtain ws where rr: "r' = r" and w: "getProp (data r) ''workflows'' = Inr (JArr ws)"
    and all: "\<forall>w \<in> set ws. listCallback w = Inr ()"
    by blast
  from all have "forEachElem ws listCallback = Inr ()"
    using forEachElem_Inr_iff [of ws listCallback "()"] by simp
  with w rr show "listResponse r = Inr r'"
    by (simp add: listResponse_def interpolate_length_array)
qed

text \<open>Where the response handler throws when there is no array.\<close>

lemma listResponse_throws:
  "data r = JUndefined \<or> data r = JNull \<Longrightarrow>
     listResponse r = Inl (TypeErrorRead (data r) ''workflows'')"
  "getProp (data r) ''workflows'' = Inr w \<Longrightarrow> w = JUndefined \<or> w = JNull \<Longrightarrow>
     listResponse r = Inl (TypeErrorRead w ''length'')"
  "getProp (data r) ''workflows'' = Inr w \<Longrightarrow>
     (\<exists>b. w = JBool b) \<or> (\<exists>n. w = JNum n) \<or> (\<exists>x. w = JStr x) \<Longrightarrow>
     listResponse r = Inl (TypeErrorNotFunction ''forEach'')"
  "getProp (data r) ''workflows'' = Inr (JObj kvs) \<Longrightarrow>
     listResponse r = Inl TypeErrorToPrimitive
     \<or> listResponse r = Inl (TypeErrorNotFunction ''forEach'')"
proof -
  show "data r = JUndefined \<or> data r = JNull \<Longrightarrow>
     listResponse r = Inl (TypeErrorRead (data r) ''workflows'')"
    by (auto simp: listResponse_def)
  show "getProp (data r) ''workflows'' = Inr w \<Longrightarrow> w = JUndefined \<or> w = JNull \<Longrightarrow>
     listResponse r = Inl (TypeErrorRead w ''length'')"
    by (auto simp: listResponse_def interpolate_def)
  show "getProp (data r) ''workflows'' = Inr w \<Longrightarrow>
     (\<exists>b. w = JBool b) \<or> (\<exists>n. w = JNum n) \<or> (\<exists>x. w = JStr x) \<Longrightarrow>
     listResponse r = Inl (TypeErrorNotFunction ''forEach'')"
    by (auto simp: listResponse_def interpolate_def)
  show "getProp (data r) ''workflows'' = Inr (JObj kvs) \<Longrightarrow>
     listResponse r = Inl TypeErrorToPrimitive
     \<or> listResponse r = Inl (TypeErrorNotFunction ''forEach'')"
  proof -
    assume w: "getProp (data r) ''workflows'' = Inr (JObj kvs)"
    show ?thesis
    proof (cases "interpolate (JObj kvs) ''length''")
      case (Inl e)
      then have "e = TypeErrorToPrimitive"
      proof (cases "map_of kvs (js ''length'')")
        case None
        with Inl show ?thesis by (simp add: interpolate_def)
      next
        case (Some x)
        have "ToString x = Inl e' \<Longrightarrow> e' = TypeErrorToPrimitive"
          and "ToStringElems xs = Inl e' \<Longrightarrow> e' = TypeErrorToPrimitive" for x xs e'
          by (induction x and xs rule: ToString_ToStringElems.induct)
             (auto split: option.splits sum.splits)
        with Inl Some show ?thesis by (simp add: interpolate_def)
      qed
      with Inl w show ?thesis by (simp add: listResponse_def)
    next
      case (Inr u)
      with w show ?thesis by (simp add: listResponse_def)
    qed
  qed
qed

lemma makeRequestOnEnd_2xx:
  assumes "200 \<le> st" and "st < 300"
  shows "makeRequestOnEnd parse st t =
           Inr \<lparr>statusCode = st,
                data = (if t = [] then JObj []
                        else case parse t of Some parsed \<Rightarrow> parsed | None \<Rightarrow> JStr t)\<rparr>"
  using assms by (simp add: makeRequestOnEnd_def split: option.splits)

lemma listWorkflows_2xx:
  assumes "https_request env (makeRequestOptions (GITHUB_TOKEN env) workflowsPath (js ''GET'') None)
             (makeRequestBody None) = Response st chunks"
      and "200 \<le> st" and "st < 300" and "t = concat chunks"
  shows "listWorkflows env =
           listResponse \<lparr>statusCode = st,
                data = (if t = [] then JObj []
                        else case JSON_parse env t of Some parsed \<Rightarrow> parsed | None \<Rightarrow> JStr t)\<rparr>"
proof -
  have "makeRequest env workflowsPath None None = makeRequestOnEnd (JSON_parse env) st t"
    using makeRequest_response [of env workflowsPath None None st chunks] assms(1,4) by simp
  then show ?thesis
    using makeRequestOnEnd_2xx [OF assms(2,3), of "JSON_parse env" t]
    by (simp add: listWorkflows_def)
qed

lemma listWorkflows_text:
  assumes "https_request env (makeRequestOptions (GITHUB_TOKEN env) workflowsPath (js ''GET'') None)
             (makeRequestBody None) = Response st chunks"
      and "200 \<le> st" and "st < 300" and "t = concat chunks"
  shows "(t = [] \<longrightarrow> listWorkflows env = Inl (TypeErrorRead JUndefined ''length''))
       \<and> (t \<noteq> [] \<and> JSON_parse env t = None
              \<longrightarrow> listWorkflows env = Inl (TypeErrorRead JUndefined ''length''))
       \<and> (\<forall>v w. t \<noteq> [] \<and> JSON_parse env t = Some v \<and> getProp v ''workflows'' = Inr w
                 \<and> (w = JUndefined \<or> w = JNull)
              \<longrightarrow> listWorkflows env = Inl (TypeErrorRead w ''length''))
       \<and> (\<forall>v. t \<noteq> [] \<and> JSON_parse env t = Some v \<and> (v = JUndefined \<or> v = JNull)
              \<longrightarrow> listWorkflows env = Inl (TypeErrorRead v ''workflows''))
       \<and> (\<forall>v w. t \<noteq> [] \<and> JSON_parse env t = Some v \<and> getProp v ''workflows'' = Inr w
                 \<and> ((\<exists>b. w = JBool b) \<or> (\<exists>n. w = JNum n) \<or> (\<exists>x. w = JStr x))
              \<longrightarrow> listWorkflows env = Inl (TypeErrorNotFunction ''forEach''))
       \<and> (\<forall>v kvs. t \<noteq> [] \<and> JSON_parse env t = Some v
                 \<and> getProp v ''workflows'' = Inr (JObj kvs)
              \<longrightarrow> listWorkflows env = Inl TypeErrorToPrimitive
                  \<or> listWorkflows env = Inl (TypeErrorNotFunction ''forEach''))
       \<and> (\<forall>r. listWorkflows env = Inr r
              \<longrightarrow> (\<exists>v ws. t \<noteq> [] \<and> JSON_parse env t = Some v
                         \<and> getProp v ''workflows'' = Inr (JArr ws)
                         \<and> (\<forall>w. w \<in> set ws \<longrightarrow> listCallback w = Inr ())
                         \<and> r = \<lparr>statusCode = st, data = v\<rparr>
                         \<and> getProp (data r) ''workflows'' = Inr (JArr ws)))
       \<and> (\<forall>v ws. t \<noteq> [] \<and> JSON_parse env t = Some v
                 \<and> getProp v ''workflows'' = Inr (JArr ws)
                 \<and> (\<forall>w. w \<in> set ws \<longrightarrow> listCallback w = Inr ())
              \<longrightarrow> listWorkflows env = Inr \<lparr>statusCode = st, data = v\<rparr>)"
proof -
  define D where "D = (if t = [] then JObj []
            else case JSON_parse env t of Some parsed \<Rightarrow> parsed | None \<Rightarrow> JStr t)"
  define R where "R = \<lparr>statusCode = st, data = D\<rparr>"
  have lw: "listWorkflows env = listResponse R"
    using listWorkflows_2xx [OF assms] by (simp add: R_def D_def)
  have dR: "data R = D" by (simp add: R_def)
  have Dv: "D = v" if "t \<noteq> [] \<and> JSON_parse env t = Some v" for v
    using that by (simp add: D_def)
  have c1: "listWorkflows env = Inl (TypeErrorRead JUndefined ''length'')" if "t = []"
  proof -
    from that have "getProp (data R) ''workflows'' = Inr JUndefined" by (simp add: dR D_def)
    from listResponse_throws(2) [OF this] lw show ?thesis by simp
  qed
  have c2: "listWorkflows env = Inl (TypeErrorRead JUndefined ''length'')"
    if "t \<noteq> [] \<and> JSON_parse env t = None"
  proof -
    from that have "getProp (data R) ''workflows'' = Inr JUndefined" by (simp add: dR D_def)
    from listResponse_throws(2) [OF this] lw show ?thesis by simp
  qed
  have c3: "listWorkflows env = Inl (TypeErrorRead w ''length'')"
    if "t \<noteq> [] \<and> JSON_parse env t = Some v \<and> getProp v ''workflows'' = Inr w
        \<and> (w = JUndefined \<or> w = JNull)" for v w
  proof -
    from that Dv [of v] have "getProp (data R) ''workflows'' = Inr w" by (simp add: dR)
    from listResponse_throws(2) [OF this] that lw show ?thesis by simp
  qed
  have c4: "listWorkflows env = Inl (TypeErrorRead v ''workflows'')"
    if "t \<noteq> [] \<and> JSON_parse env t = Some v \<and> (v = JUndefined \<or> v = JNull)" for v
  proof -
    from that Dv [of v] have "data R = v" by (simp add: dR)
    with listResponse_throws(1) [of R] that lw show ?thesis by simp
  qed
  have c5: "listWorkflows env = Inl (TypeErrorNotFunction ''forEach'')"
    if "t \<noteq> [] \<and> JSON_parse env t = Some v \<and> getProp v ''workflows'' = Inr w
        \<and> ((\<exists>b. w = JBool b) \<or> (\<exists>n. w = JNum n) \<or> (\<exists>x. w = JStr x))" for v w
  proof -
    from that Dv [of v] have "getProp (data R) ''workflows'' = Inr w" by (simp add: dR)
    from listResponse_throws(3) [OF this] that lw show ?thesis by simp
  qed
  have c6: "listWorkflows env = Inl TypeErrorToPrimitive
            \<or> listWorkflows env = Inl (TypeErrorNotFunction ''forEach'')"
    if "t \<noteq> [] \<and> JSON_parse env t = Some v \<and> getProp v ''workflows'' = Inr (JObj kvs)"
    for v kvs
  proof -
    from that Dv [of v] have "getProp (data R) ''workflows'' = Inr (JObj kvs)" by (simp add: dR)
    from listResponse_throws(4) [OF this] lw show ?thesis by simp
  qed
  have c7: "\<exists>v ws. t \<noteq> [] \<and> JSON_parse env t = Some v
                  \<and> getProp v ''workflows'' = Inr (JArr ws)
                  \<and> (\<forall>w. w \<in> set ws \<longrightarrow> listCallback w = Inr ())
                  \<and> r = \<lparr>statusCode = st, data = v\<rparr>
                  \<and> getProp (data r) ''workflows'' = Inr (JArr ws)"
    if ret: "listWorkflows env = Inr r" for r
  proof -
    from ret lw have "listResponse R = Inr r" by simp
    then obtain ws where rr: "r = R" and w: "getProp D ''workflows'' = Inr (JArr ws)"
      and all: "\<forall>w \<in> set ws. listCallback w = Inr ()"
      unfolding listResponse_Inr_iff dR by blast
    have nonempty: "t \<noteq> []"
    proof
      assume "t = []"
      with w show False by (simp add: D_def)
    qed
    obtain v where v: "JSON_parse env t = Some v"
    proof (cases "JSON_parse env t")
      case None
      with w nonempty have False by (simp add: D_def split: if_splits)
      then show ?thesis ..
    next
      case (Some v)
      then show ?thesis by (rule that)
    qed
    with nonempty have "D = v" by (simp add: D_def)
    with w all rr nonempty v show ?thesis by (auto simp: R_def)
  qed
  have c8: "listWorkflows env = Inr \<lparr>statusCode = st, data = v\<rparr>"
    if h: "t \<noteq> [] \<and> JSON_parse env t = Some v
               \<and> getProp v ''workflows'' = Inr (JArr ws)
               \<and> (\<forall>w. w \<in> set ws \<longrightarrow> listCallback w = Inr ())" for v ws
  proof -
    from h Dv [of v] have "D = v" by simp
    with h have "listResponse R = Inr R"
      unfolding listResponse_Inr_iff dR by auto
    with lw \<open>D = v\<close> show ?thesis by (simp add: R_def)
  qed
  from c1 c2 c3 c4 c5 c6 c7 c8 show ?thesis by blast
qed

text \<open>
  An entry whose \<open>name\<close> cannot be converted to a string makes the callback throw.
\<close>

lemma listCallback_unconvertible_name:
  "listCallback (JObj [(js ''name'', JObj [(js ''toString'', JNull)])]) = Inl TypeErrorToPrimitive"
  by (simp add: listCallback_def interpolate_def js_def)

text \<open>
  Claim C9, as stated, fails: the 2xx body \<open>{"workflows":"abc"}\<close> is JSON without a
  \<open>workflows\<close> array, but \<open>listWorkflows\<close> does not throw while reading the length (a string
  has one): it throws when \<open>forEach\<close> is called. (\<open>listWorkflows\<close> applies \<open>listResponse\<close> to
  what \<open>makeRequest\<close> resolves with, which for this response is what \<open>makeRequestOnEnd\<close>
  returns.)
\<close>

theorem list_throw_site_counterexample:
  \<open>andThen
     (makeRequestOnEnd
        (map_of [(js ''{"workflows":"abc"}'', JObj [(js ''workflows'', JStr (js ''abc''))])])
        200 (js ''{"workflows":"abc"}''))
     listResponse
   = Inl (TypeErrorNotFunction ''forEach'')\<close>
  by (simp add: makeRequestOnEnd_def listResponse_def interpolate_def js_def)

text \<open>
  Claim C9, amended. For every 2xx response whose body is empty or is JSON without a
  \<open>workflows\<close> array, \<open>listWorkflows\<close> throws a TypeError instead of returning an empty
  list: at the read of \<open>length\<close> when the body is empty (or is not JSON) or the \<open>workflows\<close>
  property is missing or \<open>null\<close>; at the read of \<open>workflows\<close> when the body is JSON \<open>null\<close>;
  at the call of \<open>forEach\<close> when \<open>workflows\<close> is a boolean, a number or a string; at the
  logging of the length or at the call of \<open>forEach\<close> when it is an object. It returns only
  when the body parses to a value whose \<open>workflows\<close> property is an array, and then it
  returns the response itself, with that array unchanged; it does return when the callback
  returns for every entry.
\<close>

theorem list_throws_unless_workflows_array:
  assumes "https_request env (makeRequestOptions (GITHUB_TOKEN env) workflowsPath (js ''GET'') None)
             (makeRequestBody None) = Response st chunks"
      and "200 \<le> st" and "st < 300"
  shows "(concat chunks = [] \<longrightarrow> listWorkflows env = Inl (TypeErrorRead JUndefined ''length''))
       \<and> (concat chunks \<noteq> [] \<and> JSON_parse env (concat chunks) = None
              \<longrightarrow> listWorkflows env = Inl (TypeErrorRead JUndefined ''length''))
       \<and> (\<forall>v w. concat chunks \<noteq> [] \<and> JSON_parse env (concat chunks) = Some v \<and> getProp v ''workflows'' = Inr w
                 \<and> (w = JUndefined \<or> w = JNull)
              \<longrightarrow> listWorkflows env = Inl (TypeErrorRead w ''length''))
       \<and> (\<forall>v. concat chunks \<noteq> [] \<and> JSON_parse env (concat chunks) = Some v \<and> (v = JUndefined \<or> v = JNull)
              \<longrightarrow> listWorkflows env = Inl (TypeErrorRead v ''workflows''))
       \<and> (\<forall>v w. concat chunks \<noteq> [] \<and> JSON_parse env (concat chunks) = Some v \<and> getProp v ''workflows'' = Inr w
                 \<and> ((\<exists>b. w = JBool b) \<or> (\<exists>n. w = JNum n) \<or> (\<exists>x. w = JStr x))
              \<longrightarrow> listWorkflows env = Inl (TypeErrorNotFunction ''forEach''))
       \<and> (\<forall>v kvs. concat chunks \<noteq> [] \<and> JSON_parse env (concat chunks) = Some v
                 \<and> getProp v ''workflows'' = Inr (JObj kvs)
              \<longrightarrow> listWorkflows env = Inl TypeErrorToPrimitive
                  \<or> listWorkflows env = Inl (TypeErrorNotFunction ''forEach''))
       \<and> (\<forall>r. listWorkflows env = Inr r
              \<longrightarrow> (\<exists>v ws. concat chunks \<noteq> [] \<and> JSON_parse env (concat chunks) = Some v
                         \<and> getProp v ''workflows'' = Inr (JArr ws)
                         \<and> (\<forall>w. w \<in> set ws \<longrightarrow> listCallback w = Inr ())
                         \<and> r = \<lparr>statusCode = st, data = v\<rparr>
                         \<and> getProp (data r) ''workflows'' = Inr (JArr ws)))
       \<and> (\<forall>v ws. concat chunks \<noteq> [] \<and> JSON_parse env (concat chunks) = Some v
                 \<and> getProp v ''workflows'' = Inr (JArr ws)
                 \<and> (\<forall>w. w \<in> set ws \<longrightarrow> listCallback w = Inr ())
              \<longrightarrow> listWorkflows env = Inr \<lparr>statusCode = st, data = v\<rparr>)"
  using listWorkflows_text [OF assms refl] .

theorem list_throws_unless_workflows_array_witness:
  \<open>listWorkflows
     \<lparr>GITHUB_TOKEN = js ''t'', https_request = (\<lambda>req body. Response 200 []),
      JSON_parse = (\<lambda>s. None)\<rparr>
     = Inl (TypeErrorRead JUndefined ''length'')
   \<and> listWorkflows
     \<lparr>GITHUB_TOKEN = js ''t'',
      https_request = (\<lambda>req body. Response 200 [js ''{"workflows":"abc"}'']),
      JSON_parse = map_of [(js ''{"workflows":"abc"}'', JObj [(js ''workflows'', JStr (js ''abc''))])]\<rparr>
     = Inl (TypeErrorNotFunction ''forEach'')
   \<and> listWorkflows
     \<lparr>GITHUB_TOKEN = js ''t'',
      https_request = (\<lambda>req body. Response 200 [js ''{"workflows":[{"id":1},{"id":2}]}'']),
      JSON_parse = map_of [(js ''{"workflows":[{"id":1},{"id":2}]}'',
         JObj [(js ''workflows'', JArr [JObj [(js ''id'', JNum 1)], JObj [(js ''id'', JNum 2)]])])]\<rparr>
     = Inr \<lparr>statusCode = 200,
            data = JObj [(js ''workflows'', JArr [JObj [(js ''id'', JNum 1)], JObj [(js ''id'', JNum 2)]])]\<rparr>\<close>
proof -
  have a: \<open>listWorkflows
     \<lparr>GITHUB_TOKEN = js ''t'', https_request = (\<lambda>req body. Response 200 []),
      JSON_parse = (\<lambda>s. None)\<rparr>
     = Inl (TypeErrorRead JUndefined ''length'')\<close>
    using list_throws_unless_workflows_array
      [of "\<lparr>GITHUB_TOKEN = js ''t'', https_request = (\<lambda>req body. Response 200 []),
             JSON_parse = (\<lambda>s. None)\<rparr>" 200 "[]"]
    by simp
  have b: \<open>listWorkflows
     \<lparr>GITHUB_TOKEN = js ''t'',
      https_request = (\<lambda>req body. Response 200 [js ''{"workflows":"abc"}'']),
      JSON_parse = map_of [(js ''{"workflows":"abc"}'', JObj [(js ''workflows'', JStr (js ''abc''))])]\<rparr>
     = Inl (TypeErrorNotFunction ''forEach'')\<close>
    using list_throws_unless_workflows_array
      [of \<open>\<lparr>GITHUB_TOKEN = js ''t'',
      https_request = (\<lambda>req body. Response 200 [js ''{"workflows":"abc"}'']),
      JSON_parse = map_of [(js ''{"workflows":"abc"}'', JObj [(js ''workflows'', JStr (js ''abc''))])]\<rparr>\<close>
       200 \<open>[js ''{"workflows":"abc"}'']\<close>,
       THEN conjunct2, THEN conjunct2, THEN conjunct2, THEN conjunct2, THEN conjunct1,
       rule_format,
       of \<open>JObj [(js ''workflows'', JStr (js ''abc''))]\<close> \<open>JStr (js ''abc'')\<close>]
    by (simp add: js_def)
  have c: \<open>listWorkflows
     \<lparr>GITHUB_TOKEN = js ''t'',
      https_request = (\<lambda>req body. Response 200 [js ''{"workflows":[{"id":1},{"id":2}]}'']),
      JSON_parse = map_of [(js ''{"workflows":[{"id":1},{"id":2}]}'',
         JObj [(js ''workflows'', JArr [JObj [(js ''id'', JNum 1)], JObj [(js ''id'', JNum 2)]])])]\<rparr>
     = Inr \<lparr>statusCode = 200,
            data = JObj [(js ''workflows'', JArr [JObj [(js ''id'', JNum 1)], JObj [(js ''id'', JNum 2)]])]\<rparr>\<close>
    using list_throws_unless_workflows_array
      [of \<open>\<lparr>GITHUB_TOKEN = js ''t'',
      https_request = (\<lambda>req body. Response 200 [js ''{"workflows":[{"id":1},{"id":2}]}'']),
      JSON_parse = map_of [(js ''{"workflows":[{"id":1},{"id":2}]}'',
         JObj [(js ''workflows'', JArr [JObj [(js ''id'', JNum 1)], JObj [(js ''id'', JNum 2)]])])]\<rparr>\<close>
       200 \<open>[js ''{"workflows":[{"id":1},{"id":2}]}'']\<close>,
       THEN conjunct2, THEN conjunct2, THEN conjunct2, THEN conjunct2, THEN conjunct2,
       THEN conjunct2, THEN conjunct2, rule_format,
       of \<open>JObj [(js ''workflows'', JArr [JObj [(js ''id'', JNum 1)], JObj [(js ''id'', JNum 2)]])]\<close>
          \<open>[JObj [(js ''id'', JNum 1)], JObj [(js ''id'', JNum 2)]]\<close>]
    by (simp add: js_def listCallback_def interpolate_def)
  from a b c show ?thesis by simp
qed

subsection \<open>Publishing the workflow file\<close>

lemma getProp_truthy: "truthy v \<Longrightarrow> \<exists>x. getProp v k = Inr x"
  by (cases v) simp_all

lemma prepareRequest_falsy:
  "\<not> truthy existingFile \<Longrightarrow>
     prepareRequest c existingFile =
       Inr \<lparr>owner = js OWNER, repo = js REPO, path = js WORKFLOW_PATH,
            message = js ''Add CodeQL manual trigger workflow'',
            content = c, branch = js BRANCH, sha = None\<rparr>"
  by (simp add: prepareRequest_def)

lemma prepareRequest_truthy:
  assumes "truthy existingFile"
  shows "\<exists>token. getProp existingFile ''sha'' = Inr token \<and>
     prepareRequest c existingFile =
       Inr \<lparr>owner = js OWNER, repo = js REPO, path = js WORKFLOW_PATH,
            message = js ''Update CodeQL manual trigger workflow'',
            content = c, branch = js BRANCH, sha = Some token\<rparr>"
proof -
  from getProp_truthy [OF assms] obtain token where "getProp existingFile ''sha'' = Inr token"
    by blast
  with assms show ?thesis by (simp add: prepareRequest_def)
qed

lemma pushWorkflow_calls:
  assumes "localFile env = Some workflowContent" and "checkExisting env = Inr existingFile"
      and "prepareRequest (base64 (utf8_encode workflowContent)) existingFile = Inr rd"
  shows "fst (pushWorkflow env) = [GetContent getContentParams, CreateOrUpdateFileContents rd]"
  using assms by (simp add: pushWorkflow_def pushWorkflowBody_def Let_def split: prod.splits sum.splits)

lemma pushWorkflow_resolve_failed:
  assumes "localFile env = Some workflowContent" and "checkExisting env = Inl error"
  shows "pushWorkflow env = ([GetContent getContentParams], Exited 1 error)"
  using assms by (simp add: pushWorkflow_def pushWorkflowBody_def Let_def)

lemma pushWorkflow_no_file:
  assumes "localFile env = None"
  shows "fst (pushWorkflow env) = []"
  using assms by (simp add: pushWorkflow_def pushWorkflowBody_def)

text \<open>An error of the PUT reaches the outer handler unchanged.\<close>

lemma pushWorkflow_put_failed:
  assumes "localFile env = Some workflowContent" and "checkExisting env = Inr existingFile"
      and "prepareRequest (base64 (utf8_encode workflowContent)) existingFile = Inr rd"
      and "createOrUpdateFileContents env rd = Inl error"
  shows "pushWorkflow env =
           ([GetContent getContentParams, CreateOrUpdateFileContents rd], Exited 1 error)"
  using assms by (simp add: pushWorkflow_def pushWorkflowBody_def Let_def)

text \<open>
  Claim C1. When the existence check throws an error with status 404, \<open>existingFile\<close> stays
  \<open>null\<close> and the script goes on to create the file: the PUT carries the message \<open>Add ...\<close>
  and no \<open>sha\<close>. When it throws any other error, the error is rethrown: it reaches the outer
  handler, the process exits with code 1, and no PUT is issued.
\<close>

theorem resolve_404_is_create_other_errors_propagate:
  assumes "localFile env = Some workflowContent"
      and "getContent env getContentParams = Inl error"
  shows "(status error = Some 404 \<longrightarrow>
            checkExisting env = Inr JNull
          \<and> fst (pushWorkflow env) =
              [GetContent getContentParams,
               CreateOrUpdateFileContents
                 \<lparr>owner = js OWNER, repo = js REPO, path = js WORKFLOW_PATH,
                  message = js ''Add CodeQL manual trigger workflow'',
                  content = base64 (utf8_encode workflowContent), branch = js BRANCH,
                  sha = None\<rparr>])
       \<and> (status error \<noteq> Some 404 \<longrightarrow>
            checkExisting env = Inl error
          \<and> pushWorkflow env = ([GetContent getContentParams], Exited 1 error))"
proof (intro conjI impI)
  assume s: "status error = Some 404"
  with assms(2) show c: "checkExisting env = Inr JNull" by (simp add: checkExisting_def)
  show "fst (pushWorkflow env) =
              [GetContent getContentParams,
               CreateOrUpdateFileContents
                 \<lparr>owner = js OWNER, repo = js REPO, path = js WORKFLOW_PATH,
                  message = js ''Add CodeQL manual trigger workflow'',
                  content = base64 (utf8_encode workflowContent), branch = js BRANCH,
                  sha = None\<rparr>]"
    by (rule pushWorkflow_calls [OF assms(1) c]) (simp add: prepareRequest_falsy)
next
  assume s: "status error \<noteq> Some 404"
  with assms(2) show c: "checkExisting env = Inl error" by (simp add: checkExisting_def)
  show "pushWorkflow env = ([GetContent getContentParams], Exited 1 error)"
    by (rule pushWorkflow_resolve_failed [OF assms(1) c])
qed

theorem resolve_404_is_create_other_errors_propagate_witness:
  "fst (pushWorkflow
      \<lparr>workflowFilePath = js ''/w'', localFile = Some (js ''a''),
       getContent = (\<lambda>p. Inl (RequestError 404 (js ''Not Found''))),
       createOrUpdateFileContents = (\<lambda>rd. Inr (JObj []))\<rparr>)
     = [GetContent getContentParams,
        CreateOrUpdateFileContents
          \<lparr>owner = js OWNER, repo = js REPO, path = js WORKFLOW_PATH,
           message = js ''Add CodeQL manual trigger workflow'',
           content = js ''YQ=='', branch = js BRANCH, sha = None\<rparr>]
   \<and> pushWorkflow
      \<lparr>workflowFilePath = js ''/w'', localFile = Some (js ''a''),
       getContent = (\<lambda>p. Inl (RequestError 403 (js ''Forbidden''))),
       createOrUpdateFileContents = (\<lambda>rd. Inr (JObj []))\<rparr>
     = ([GetContent getContentParams], Exited 1 (RequestError 403 (js ''Forbidden'')))"
proof -
  have b64: "base64 (utf8_encode (js ''a'')) = js ''YQ==''"
    by (simp add: js_def isHighSurrogate_def isLowSurrogate_def utf8_codepoint_def base64Char_def)
  have a: "fst (pushWorkflow
      \<lparr>workflowFilePath = js ''/w'', localFile = Some (js ''a''),
       getContent = (\<lambda>p. Inl (RequestError 404 (js ''Not Found''))),
       createOrUpdateFileContents = (\<lambda>rd. Inr (JObj []))\<rparr>)
     = [GetContent getContentParams,
        CreateOrUpdateFileContents
          \<lparr>owner = js OWNER, repo = js REPO, path = js WORKFLOW_PATH,
           message = js ''Add CodeQL manual trigger workflow'',
           content = js ''YQ=='', branch = js BRANCH, sha = None\<rparr>]"
    using resolve_404_is_create_other_errors_propagate
      [of "\<lparr>workflowFilePath = js ''/w'', localFile = Some (js ''a''),
       getContent = (\<lambda>p. Inl (RequestError 404 (js ''Not Found''))),
       createOrUpdateFileContents = (\<lambda>rd. Inr (JObj []))\<rparr>" "js ''a''" "RequestError 404 (js ''Not Found'')"]
    by (simp add: b64)
  have b: "pushWorkflow
      \<lparr>workflowFilePath = js ''/w'', localFile = Some (js ''a''),
       getContent = (\<lambda>p. Inl (RequestError 403 (js ''Forbidden''))),
       createOrUpdateFileContents = (\<lambda>rd. Inr (JObj []))\<rparr>
     = ([GetContent getContentParams], Exited 1 (RequestError 403 (js ''Forbidden'')))"
    using resolve_404_is_create_other_errors_propagate
      [of "\<lparr>workflowFilePath = js ''/w'', localFile = Some (js ''a''),
       getContent = (\<lambda>p. Inl (RequestError 403 (js ''Forbidden''))),
       createOrUpdateFileContents = (\<lambda>rd. Inr (JObj []))\<rparr>" "js ''a''" "RequestError 403 (js ''Forbidden'')"]
    by simp
  from a b show ?thesis by simp
qed

text \<open>
  Claim C2. When the existence check found no file (status 404), the PUT request has no
  \<open>sha\<close> property; when it returned a file, the PUT request has the \<open>sha\<close> property and its
  value is the \<open>sha\<close> of the returned data. (Returned data that is falsy counts as no file.)
\<close>

theorem put_carries_resolved_token:
  assumes "localFile env = Some workflowContent"
  shows "(\<forall>error. getContent env getContentParams = Inl error \<and> status error = Some 404 \<longrightarrow>
            (\<exists>rd. fst (pushWorkflow env) = [GetContent getContentParams, CreateOrUpdateFileContents rd]
                 \<and> sha rd = None))
       \<and> (\<forall>existingFile. getContent env getContentParams = Inr existingFile \<and> truthy existingFile \<longrightarrow>
            (\<exists>rd token. fst (pushWorkflow env) = [GetContent getContentParams, CreateOrUpdateFileContents rd]
                 \<and> getProp existingFile ''sha'' = Inr token \<and> sha rd = Some token))
       \<and> (\<forall>existingFile. getContent env getContentParams = Inr existingFile \<and> \<not> truthy existingFile \<longrightarrow>
            (\<exists>rd. fst (pushWorkflow env) = [GetContent getContentParams, CreateOrUpdateFileContents rd]
                 \<and> sha rd = None))"
proof (intro conjI allI impI)
  fix error
  assume "getContent env getContentParams = Inl error \<and> status error = Some 404"
  then have c: "checkExisting env = Inr JNull" by (simp add: checkExisting_def)
  have "fst (pushWorkflow env) = [GetContent getContentParams, CreateOrUpdateFileContents
          \<lparr>owner = js OWNER, repo = js REPO, path = js WORKFLOW_PATH,
           message = js ''Add CodeQL manual trigger workflow'',
           content = base64 (utf8_encode workflowContent), branch = js BRANCH, sha = None\<rparr>]"
    by (rule pushWorkflow_calls [OF assms c]) (simp add: prepareRequest_falsy)
  then show "\<exists>rd. fst (pushWorkflow env) = [GetContent getContentParams, CreateOrUpdateFileContents rd]
                 \<and> sha rd = None"
    by simp
next
  fix existingFile
  assume h: "getContent env getContentParams = Inr existingFile \<and> truthy existingFile"
  then have c: "checkExisting env = Inr existingFile" by (simp add: checkExisting_def)
  from h prepareRequest_truthy [of existingFile "base64 (utf8_encode workflowContent)"]
  obtain token where t: "getProp existingFile ''sha'' = Inr token"
    and p: "prepareRequest (base64 (utf8_encode workflowContent)) existingFile =
       Inr \<lparr>owner = js OWNER, repo = js REPO, path = js WORKFLOW_PATH,
            message = js ''Update CodeQL manual trigger workflow'',
            content = base64 (utf8_encode workflowContent), branch = js BRANCH, sha = Some token\<rparr>"
    by blast
  from pushWorkflow_calls [OF assms c p] t
  show "\<exists>rd token. fst (pushWorkflow env) = [GetContent getContentParams, CreateOrUpdateFileContents rd]
                 \<and> getProp existingFile ''sha'' = Inr token \<and> sha rd = Some token"
    by simp
next
  fix existingFile
  assume h: "getContent env getContentParams = Inr existingFile \<and> \<not> truthy existingFile"
  then have c: "checkExisting env = Inr existingFile" by (simp add: checkExisting_def)
  have "fst (pushWorkflow env) = [GetContent getContentParams, CreateOrUpdateFileContents
          \<lparr>owner = js OWNER, repo = js REPO, path = js WORKFLOW_PATH,
           message = js ''Add CodeQL manual trigger workflow'',
           content = base64 (utf8_encode workflowContent), branch = js BRANCH, sha = None\<rparr>]"
    using h by (intro pushWorkflow_calls [OF assms c]) (simp add: prepareRequest_falsy)
  then show "\<exists>rd. fst (pushWorkflow env) = [GetContent getContentParams, CreateOrUpdateFileContents rd]
                 \<and> sha rd = None"
    by simp
qed

theorem put_carries_resolved_token_witness:
  "(\<exists>rd. fst (pushWorkflow
      \<lparr>workflowFilePath = js ''/w'', localFile = Some (js ''a''),
       getContent = (\<lambda>p. Inr (JObj [(js ''sha'', JStr (js ''abc''))])),
       createOrUpdateFileContents = (\<lambda>rd. Inr (JObj []))\<rparr>)
       = [GetContent getContentParams, CreateOrUpdateFileContents rd]
       \<and> sha rd = Some (JStr (js ''abc'')))
   \<and> (\<exists>rd. fst (pushWorkflow
      \<lparr>workflowFilePath = js ''/w'', localFile = Some (js ''a''),
       getContent = (\<lambda>p. Inl (RequestError 404 (js ''Not Found''))),
       createOrUpdateFileContents = (\<lambda>rd. Inr (JObj []))\<rparr>)
       = [GetContent getContentParams, CreateOrUpdateFileContents rd]
       \<and> sha rd = None)"
proof -
  have a: "\<exists>rd. fst (pushWorkflow
      \<lparr>workflowFilePath = js ''/w'', localFile = Some (js ''a''),
       getContent = (\<lambda>p. Inr (JObj [(js ''sha'', JStr (js ''abc''))])),
       createOrUpdateFileContents = (\<lambda>rd. Inr (JObj []))\<rparr>)
       = [GetContent getContentParams, CreateOrUpdateFileContents rd]
       \<and> sha rd = Some (JStr (js ''abc''))"
    using put_carries_resolved_token
      [of "\<lparr>workflowFilePath = js ''/w'', localFile = Some (js ''a''),
       getContent = (\<lambda>p. Inr (JObj [(js ''sha'', JStr (js ''abc''))])),
       createOrUpdateFileContents = (\<lambda>rd. Inr (JObj []))\<rparr>" "js ''a''", THEN conjunct2, THEN conjunct1, rule_format,
       of "JObj [(js ''sha'', JStr (js ''abc''))]"]
    by simp
  have b: "\<exists>rd. fst (pushWorkflow
      \<lparr>workflowFilePath = js ''/w'', localFile = Some (js ''a''),
       getContent = (\<lambda>p. Inl (RequestError 404 (js ''Not Found''))),
       createOrUpdateFileContents = (\<lambda>rd. Inr (JObj []))\<rparr>)
       = [GetContent getContentParams, CreateOrUpdateFileContents rd]
       \<and> sha rd = None"
    using put_carries_resolved_token
      [of "\<lparr>workflowFilePath = js ''/w'', localFile = Some (js ''a''),
       getContent = (\<lambda>p. Inl (RequestError 404 (js ''Not Found''))),
       createOrUpdateFileContents = (\<lambda>rd. Inr (JObj []))\<rparr>" "js ''a''", THEN conjunct1, rule_format,
       of "RequestError 404 (js ''Not Found'')"]
    by simp
  from a b show ?thesis by simp
qed

lemma pushWorkflow_trace_cases:
  "fst (pushWorkflow env) = []
   \<or> fst (pushWorkflow env) = [GetContent getContentParams] \<and> (\<exists>e. snd (pushWorkflow env) = Exited 1 e)
   \<or> (\<exists>rd existingFile. fst (pushWorkflow env) = [GetContent getContentParams, CreateOrUpdateFileContents rd]
        \<and> checkExisting env = Inr existingFile)"
  by (simp add: pushWorkflow_def pushWorkflowBody_def Let_def split: option.splits sum.splits)

text \<open>
  Claim C5. A PUT is issued only as the second call, after the existence check, and only
  when that check ended without a rethrown error; when the check throws an error whose
  status is not 404 (a transport failure has no status 404 either), no PUT is issued.
\<close>

theorem put_only_after_successful_resolve:
  "(\<forall>rd. CreateOrUpdateFileContents rd \<in> set (fst (pushWorkflow env)) \<longrightarrow>
      fst (pushWorkflow env) = [GetContent getContentParams, CreateOrUpdateFileContents rd]
      \<and> (\<exists>existingFile. checkExisting env = Inr existingFile))
   \<and> (\<forall>error. getContent env getContentParams = Inl error \<and> status error \<noteq> Some 404 \<longrightarrow>
        (\<forall>rd. CreateOrUpdateFileContents rd \<notin> set (fst (pushWorkflow env))))"
proof -
  have a: "fst (pushWorkflow env) = [GetContent getContentParams, CreateOrUpdateFileContents rd]
      \<and> (\<exists>existingFile. checkExisting env = Inr existingFile)"
    if "CreateOrUpdateFileContents rd \<in> set (fst (pushWorkflow env))" for rd
    using that pushWorkflow_trace_cases [of env] by auto
  have b: "CreateOrUpdateFileContents rd \<notin> set (fst (pushWorkflow env))"
    if "getContent env getContentParams = Inl error \<and> status error \<noteq> Some 404" for error rd
  proof -
    from that have "checkExisting env = Inl error" by (simp add: checkExisting_def)
    with pushWorkflow_trace_cases [of env] show ?thesis by auto
  qed
  from a b show ?thesis by blast
qed

theorem put_only_after_successful_resolve_witness:
  "(\<forall>rd. CreateOrUpdateFileContents rd \<notin> set (fst (pushWorkflow
      \<lparr>workflowFilePath = js ''/w'', localFile = Some (js ''a''),
       getContent = (\<lambda>p. Inl (RequestError 403 (js ''Forbidden''))),
       createOrUpdateFileContents = (\<lambda>rd. Inr (JObj []))\<rparr>)))
   \<and> fst (pushWorkflow
      \<lparr>workflowFilePath = js ''/w'', localFile = Some (js ''a''),
       getContent = (\<lambda>p. Inl (RequestError 404 (js ''Not Found''))),
       createOrUpdateFileContents = (\<lambda>rd. Inr (JObj []))\<rparr>)
     = [GetContent getContentParams,
        CreateOrUpdateFileContents
          \<lparr>owner = js OWNER, repo = js REPO, path = js WORKFLOW_PATH,
           message = js ''Add CodeQL manual trigger workflow'',
           content = js ''YQ=='', branch = js BRANCH, sha = None\<rparr>]"
proof -
  have a: "\<forall>rd. CreateOrUpdateFileContents rd \<notin> set (fst (pushWorkflow
      \<lparr>workflowFilePath = js ''/w'', localFile = Some (js ''a''),
       getContent = (\<lambda>p. Inl (RequestError 403 (js ''Forbidden''))),
       createOrUpdateFileContents = (\<lambda>rd. Inr (JObj []))\<rparr>))"
    using put_only_after_successful_resolve
      [of "\<lparr>workflowFilePath = js ''/w'', localFile = Some (js ''a''),
       getContent = (\<lambda>p. Inl (RequestError 403 (js ''Forbidden''))),
       createOrUpdateFileContents = (\<lambda>rd. Inr (JObj []))\<rparr>", THEN conjunct2, rule_format, of "RequestError 403 (js ''Forbidden'')"]
    by simp
  have b64: "base64 (utf8_encode (js ''a'')) = js ''YQ==''"
    by (simp add: js_def isHighSurrogate_def isLowSurrogate_def utf8_codepoint_def base64Char_def)
  have mem: "CreateOrUpdateFileContents
          \<lparr>owner = js OWNER, repo = js REPO, path = js WORKFLOW_PATH,
           message = js ''Add CodeQL manual trigger workflow'',
           content = js ''YQ=='', branch = js BRANCH, sha = None\<rparr>
        \<in> set (fst (pushWorkflow
      \<lparr>workflowFilePath = js ''/w'', localFile = Some (js ''a''),
       getContent = (\<lambda>p. Inl (RequestError 404 (js ''Not Found''))),
       createOrUpdateFileContents = (\<lambda>rd. Inr (JObj []))\<rparr>))"
    by (simp add: pushWorkflow_def pushWorkflowBody_def checkExisting_def prepareRequest_def
          interpolate_def b64)
  have b: "fst (pushWorkflow
      \<lparr>workflowFilePath = js ''/w'', localFile = Some (js ''a''),
       getContent = (\<lambda>p. Inl (RequestError 404 (js ''Not Found''))),
       createOrUpdateFileContents = (\<lambda>rd. Inr (JObj []))\<rparr>)
     = [GetContent getContentParams,
        CreateOrUpdateFileContents
          \<lparr>owner = js OWNER, repo = js REPO, path = js WORKFLOW_PATH,
           message = js ''Add CodeQL manual trigger workflow'',
           content = js ''YQ=='', branch = js BRANCH, sha = None\<rparr>]"
    using put_only_after_successful_resolve
      [of "\<lparr>workflowFilePath = js ''/w'', localFile = Some (js ''a''),
       getContent = (\<lambda>p. Inl (RequestError 404 (js ''Not Found''))),
       createOrUpdateFileContents = (\<lambda>rd. Inr (JObj []))\<rparr>", THEN conjunct1, rule_format, OF mem]
    by simp
  from a b show ?thesis by simp
qed

end
